theory Spec2Isabelle
  imports Complex_Main "HOL-Library.Extended_Nat"
begin

section \<open>Values shared by the whole module\<close>

text \<open>
  The module \<^verbatim>\<open>adaptor/recurjac_adaptor.py\<close> converts a torch sequential model into a
  keras sequential model and wraps the external RecurJac library. Python exceptions are
  values of \<open>error\<close>; a function that can raise returns \<open>error + 'a\<close>.

  Floating-point scalars (radii, bounds, weights) are modelled as \<open>real\<close>: the module only
  compares them (\<^verbatim>\<open>==\<close>, \<^verbatim>\<open>>=\<close>, \<^verbatim>\<open><=\<close>) and hands them on, so rounding and NaN are not
  part of the model.
\<close>

datatype error =
  NotImplementedError | AssertionError | AttributeError | KeyError | IndexError | ValueError

type_synonym tensor = "real list"

text \<open>A two-dimensional tensor (or numpy array) with its shape, stored row by row.\<close>

record tensor2 =
  shape0 :: nat
  shape1 :: nat
  rows :: "real list list"

text \<open>\<^verbatim>\<open>weight.t()\<close>: entry \<open>(j, i)\<close> of the result is entry \<open>(i, j)\<close> of the argument.\<close>

definition t :: "tensor2 \<Rightarrow> tensor2" where
  "t W = \<lparr>shape0 = shape1 W, shape1 = shape0 W,
          rows = map (\<lambda>j. map (\<lambda>r. r ! j) (rows W)) [0..<shape1 W]\<rparr>"

text \<open>Python's \<^verbatim>\<open>str(n)\<close> for a non-negative integer, used by the f-strings that name layers.\<close>

fun str_nat :: "nat \<Rightarrow> string" where
  "str_nat n =
     (if n < 10 then [''0123456789'' ! n]
      else str_nat (n div 10) @ [''0123456789'' ! (n mod 10)])"

declare str_nat.simps [simp del]

section \<open>The two layer languages\<close>

text \<open>
  A torch layer as \<^verbatim>\<open>torch2keras\<close> sees it through its \<^verbatim>\<open>isinstance\<close> chain.
  \<open>Flatten\<close> is the repository's \<^verbatim>\<open>models.test_model.Flatten\<close>; \<open>Linear\<close> carries
  \<^verbatim>\<open>in_features\<close>, \<^verbatim>\<open>out_features\<close>, \<^verbatim>\<open>weight\<close> and \<^verbatim>\<open>bias\<close> (\<open>None\<close> for
  \<^verbatim>\<open>nn.Linear(..., bias=False)\<close>); \<open>LeakyReLU\<close> carries \<^verbatim>\<open>negative_slope\<close>; \<open>Dropout\<close> its
  rate; \<open>Other\<close> is a module of any other class, named by its class.
\<close>

datatype torch_layer =
  Flatten
| Linear (in_features: nat) (out_features: nat) (weight: tensor2) (bias: "tensor option")
| ReLU
| Tanh
| LeakyReLU (negative_slope: real)
| Dropout real
| Other string

text \<open>
  What the code builds on the keras side: \<^verbatim>\<open>keras.layers.Flatten(input_shape=...)\<close>,
  \<^verbatim>\<open>keras.layers.Dense(o)\<close> after \<^verbatim>\<open>set_weights([kernel, bias])\<close>,
  \<^verbatim>\<open>keras.layers.Activation(kind, name=...)\<close> and
  \<^verbatim>\<open>keras.layers.LeakyReLU(alpha=..., name=...)\<close>. A \<^verbatim>\<open>keras.Sequential\<close> is the list of
  its layers in the order of the \<^verbatim>\<open>add\<close> calls.
\<close>

datatype keras_layer =
  KFlatten "nat list"
| KDense (units: nat) (kernel: tensor2) (kbias: tensor)
| KActivation string string
| KLeakyReLU (alpha: real) string

text \<open>
  keras builds a \<^verbatim>\<open>Sequential\<close> from the \<^verbatim>\<open>input_shape\<close> of its first layer, and once it is
  built every layer added to it is built too. Of the layers this module adds only
  \<^verbatim>\<open>Flatten\<close> is given an \<^verbatim>\<open>input_shape\<close>. \<open>keras_width ans\<close> is the number of features the
  model \<open>ans\<close> puts out, \<open>None\<close> while keras has not built it: a first \<^verbatim>\<open>Flatten\<close> puts out
  the product of its input shape, a \<^verbatim>\<open>Dense\<close> its units, and every other layer what it is
  given.
\<close>

fun keras_width :: "keras_layer list \<Rightarrow> nat option" where
  "keras_width [] = None"
| "keras_width (KFlatten input_shape # ks) =
     Some (foldl (\<lambda>w k. case k of KDense u K b \<Rightarrow> u | _ \<Rightarrow> w) (prod_list input_shape) ks)"
| "keras_width (k # ks) = None"

text \<open>
  \<^verbatim>\<open>l.set_weights([kernel, bias])\<close> on the layer \<^verbatim>\<open>Dense(u)\<close> just added to a model of
  width \<open>width\<close>: keras raises ValueError when the layer is not built (it has no weights
  yet) and when an array's shape is not the shape of the layer's weight, which is
  \<open>(width, u)\<close> for the kernel and \<open>(u)\<close> for the bias.
\<close>

definition set_weights_ok :: "nat option \<Rightarrow> nat \<Rightarrow> tensor2 \<Rightarrow> tensor \<Rightarrow> bool" where
  "set_weights_ok width u K b =
     (case width of
        None \<Rightarrow> False
      | Some w \<Rightarrow> shape0 K = w \<and> shape1 K = u \<and> length b = u)"

section \<open>torch2keras\<close>

text \<open>
  The body of the \<^verbatim>\<open>for layer in model\<close> loop, with the loop variables \<^verbatim>\<open>n\<close>, \<^verbatim>\<open>ans\<close>,
  \<^verbatim>\<open>activation\<close> and \<^verbatim>\<open>activation_param\<close> as accumulators. The first layer that raises
  ends the loop. In the \<^verbatim>\<open>Linear\<close> branch the arguments of \<^verbatim>\<open>set_weights\<close> are evaluated
  first, and \<^verbatim>\<open>layer.bias.cpu()\<close> raises AttributeError when the bias is \<^verbatim>\<open>None\<close>; then
  \<^verbatim>\<open>set_weights\<close> raises ValueError when keras does not take the arrays.
\<close>

fun torch2keras_loop ::
  "nat list \<Rightarrow> torch_layer list \<Rightarrow> nat \<Rightarrow> keras_layer list \<Rightarrow> string list \<Rightarrow> real option
    \<Rightarrow> error + (keras_layer list \<times> string list \<times> real option)" where
  "torch2keras_loop input_shape [] n ans activation activation_param =
     Inr (ans, activation, activation_param)"
| "torch2keras_loop input_shape (layer # rest) n0 ans activation activation_param =
     (let n = n0 + 1 in
      case layer of
        Flatten \<Rightarrow>
          torch2keras_loop input_shape rest n (ans @ [KFlatten input_shape])
            activation activation_param
      | Linear i o' W b \<Rightarrow>
          (case b of
             None \<Rightarrow> Inl AttributeError
           | Some bv \<Rightarrow>
               if set_weights_ok (keras_width ans) o' (t W) bv then
                 torch2keras_loop input_shape rest n (ans @ [KDense o' (t W) bv])
                   activation activation_param
               else Inl ValueError)
      | ReLU \<Rightarrow>
          torch2keras_loop input_shape rest n
            (ans @ [KActivation ''relu'' (''relu_'' @ str_nat n)])
            (activation @ [''relu'']) activation_param
      | Tanh \<Rightarrow>
          torch2keras_loop input_shape rest n
            (ans @ [KActivation ''tanh'' (''tanh_'' @ str_nat n)])
            (activation @ [''tanh'']) activation_param
      | LeakyReLU slope \<Rightarrow>
          torch2keras_loop input_shape rest n
            (ans @ [KLeakyReLU slope (''leaky_'' @ str_nat n)])
            (activation @ [''leaky'']) (Some slope)
      | Dropout p \<Rightarrow>
          torch2keras_loop input_shape rest n ans activation activation_param
      | Other c \<Rightarrow> Inl NotImplementedError)"

text \<open>
  \<^verbatim>\<open>torch2keras(dataset, model)\<close>. \<^verbatim>\<open>datasets.get_input_shape\<close> is not part of this
  module and is a parameter. \<^verbatim>\<open>list(set(activation))\<close> keeps one copy of each string
  (\<open>remdups\<close>); the assertion wants exactly one.
\<close>

definition torch2keras ::
  "(string \<Rightarrow> nat list) \<Rightarrow> string \<Rightarrow> torch_layer list
    \<Rightarrow> error + (keras_layer list \<times> string \<times> real option)" where
  "torch2keras get_input_shape dataset model =
     (case torch2keras_loop (get_input_shape dataset) model 0 [] [] None of
        Inl e \<Rightarrow> Inl e
      | Inr (ans, activation, activation_param) \<Rightarrow>
          (case remdups activation of
             [a] \<Rightarrow> Inr (ans, a, activation_param)
           | _ \<Rightarrow> Inl AssertionError))"

section \<open>The external libraries\<close>

text \<open>
  Everything numerical is done by keras, numpy and the RecurJac library, none of which is
  part of this module. Their functions are parameters of the model, collected in
  \<open>externals\<close>; each argument list is a record whose fields follow the call site.
\<close>

record cbi_args =
  cbi_weights :: "tensor2 list"
  cbi_biases :: "tensor list"
  cbi_pred_label :: nat
  cbi_target :: int
  cbi_input :: tensor
  cbi_pred :: tensor
  cbi_numlayer :: nat
  cbi_norm :: enat
  cbi_eps :: real
  cbi_lipsteps :: nat
  cbi_layerbndalg :: string
  cbi_jacbndalg :: "string option"
  cbi_untargeted :: bool
  cbi_activation :: string
  cbi_activation_param :: "real option"
  cbi_lipsdir :: int
  cbi_lipsshift :: int

record cb_args =
  cb_weights :: "tensor2 list"
  cb_biases :: "tensor list"
  cb_pred_label :: nat
  cb_target :: int
  cb_input :: tensor
  cb_pred :: tensor
  cb_numlayer :: nat
  cb_norm :: enat
  cb_eps :: real
  cb_layerbndalg :: string
  cb_jacbndalg :: string
  cb_untargeted :: bool
  cb_use_quad :: bool
  cb_activation :: string
  cb_activation_param :: "real option"
  cb_bounded_input :: bool

record sb_args =
  sb_weights :: "tensor2 list"
  sb_biases :: "tensor list"
  sb_pred_label :: nat
  sb_target :: int
  sb_input :: tensor
  sb_pred :: tensor
  sb_numlayer :: nat
  sb_activation :: string
  sb_norm :: enat
  sb_untargeted :: bool

text \<open>
  \<^verbatim>\<open>recurjac.utils.binary_search(cond, init, max_steps=...)\<close> is a higher-order function of
  the library. All this module fixes about it is that it is handed a callback, a start
  value and a step count. Its behaviour is therefore a strategy: it either returns a value
  or asks the callback at a point and goes on with the callback's answer
  \<^verbatim>\<open>(success, value)\<close>.
\<close>

datatype search = Return real | Query real "bool \<times> real \<Rightarrow> search"

text \<open>
  The RecurJac-side model object built by \<open>RecurBaseModel.__init__\<close>: the keras model,
  the activation name and parameter, and the Dense layers \<^verbatim>\<open>U\<close> (all but the last) and
  \<^verbatim>\<open>W\<close> (the last). The keras backend handles \<^verbatim>\<open>layer_outputs\<close> and \<^verbatim>\<open>gradients\<close> are
  opaque keras objects that no method of this module reads; they are left out.
\<close>

record RecurBaseModel =
  rbm_model :: "keras_layer list"
  rbm_activation :: string
  rbm_activation_param :: "real option"
  rbm_U :: "keras_layer list"
  rbm_W :: keras_layer

record externals =
  get_input_shape :: "string \<Rightarrow> nat list"
  predict :: "keras_layer list \<Rightarrow> tensor list \<Rightarrow> tensor list"
  get_weights_list :: "RecurBaseModel \<Rightarrow> tensor2 list \<times> tensor list"
  compute_bounds_integral :: "cbi_args \<Rightarrow> real"
  compute_bounds :: "cb_args \<Rightarrow> real"
  spectral_bound :: "sb_args \<Rightarrow> real"
  binary_search :: "real \<Rightarrow> nat \<Rightarrow> search"

text \<open>
  \<open>compute_bounds\<close> returns a 4-tuple and \<open>spectral_bound\<close> a pair; the module reads the
  first component only (\<^verbatim>\<open>gap_gx, _, _, _ = ...\<close>, \<^verbatim>\<open>robustness_lb, _ = ...\<close>), which is
  what the parameters return.

  Every call that leaves the module is logged as an \<open>event\<close>, in the order it is made.
\<close>

datatype event =
  Predict "keras_layer list" "tensor list"
| ComputeBoundsIntegral cbi_args
| ComputeBounds cb_args
| SpectralBound sb_args
| BinarySearchCall real nat
| BinarySearchReturn real

text \<open>What a method returns: Python's \<^verbatim>\<open>bool\<close> or \<^verbatim>\<open>float\<close>.\<close>

datatype pyval = PyBool bool | PyFloat real

section \<open>The adaptor classes\<close>

datatype adaptor_class =
  RecurJacBase | FastLipAdaptor | RecurJacAdaptor | SpectralAdaptor | FastLinAdaptor

text \<open>The attributes of an adaptor object, with its class.\<close>

record adaptor =
  cls :: adaptor_class
  model :: RecurBaseModel
  weights :: "tensor2 list"
  biases :: "tensor list"
  lipsteps :: nat
  layerbndalg :: string
  bounded_input :: bool
  jacbndalg :: "string option"
  lipsdir :: int
  lipsshift :: int
  steps :: nat

text \<open>
  The outcome of a method call: the value returned or the exception raised, the object
  afterwards, and the external calls made, in order.
\<close>

record outcome =
  result :: "error + pyval"
  self_after :: adaptor
  calls :: "event list"

subsection \<open>Constructors\<close>

text \<open>
  \<open>RecurBaseModel.__init__\<close>: \<^verbatim>\<open>self.U[-1]\<close> raises IndexError when the keras model has no
  Dense layer.
\<close>

definition RecurBaseModel_init ::
  "externals \<Rightarrow> string \<Rightarrow> torch_layer list \<Rightarrow> error + RecurBaseModel" where
  "RecurBaseModel_init ext dataset net =
     (case torch2keras (get_input_shape ext) dataset net of
        Inl e \<Rightarrow> Inl e
      | Inr (km, act, act_param) \<Rightarrow>
          (let dense = filter is_KDense km in
           if dense = [] then Inl IndexError
           else Inr \<lparr>rbm_model = km, rbm_activation = act, rbm_activation_param = act_param,
                     rbm_U = butlast dense, rbm_W = last dense\<rparr>))"

text \<open>
  \<open>RecurJacBase.__init__\<close>. The call \<^verbatim>\<open>super().__init__(dataset, model)\<close> goes to
  \<^verbatim>\<open>adaptor.adaptor.Adaptor\<close>, which is outside this module; of what it may set, only
  \<^verbatim>\<open>self.model\<close> is read here, and that is overwritten on the next line.
\<close>

definition RecurJacBase_init ::
  "externals \<Rightarrow> string \<Rightarrow> torch_layer list \<Rightarrow> error + adaptor" where
  "RecurJacBase_init ext dataset net =
     (case RecurBaseModel_init ext dataset net of
        Inl e \<Rightarrow> Inl e
      | Inr m \<Rightarrow>
          (let (ws, bs) = get_weights_list ext m in
           Inr \<lparr>cls = RecurJacBase, model = m, weights = ws, biases = bs,
                 lipsteps = 15,
                 layerbndalg =
                   (if rbm_activation m = ''relu'' then ''crown-adaptive'' else ''crown-general''),
                 bounded_input = True, jacbndalg = None, lipsdir = - 1, lipsshift = 1,
                 steps = 15\<rparr>))"

definition FastLipAdaptor_init ::
  "externals \<Rightarrow> string \<Rightarrow> torch_layer list \<Rightarrow> error + adaptor" where
  "FastLipAdaptor_init ext dataset net =
     (case RecurJacBase_init ext dataset net of
        Inl e \<Rightarrow> Inl e
      | Inr self \<Rightarrow> Inr (self\<lparr>cls := FastLipAdaptor, jacbndalg := Some ''fastlip''\<rparr>))"

definition RecurJacAdaptor_init ::
  "externals \<Rightarrow> string \<Rightarrow> torch_layer list \<Rightarrow> error + adaptor" where
  "RecurJacAdaptor_init ext dataset net =
     (case RecurJacBase_init ext dataset net of
        Inl e \<Rightarrow> Inl e
      | Inr self \<Rightarrow> Inr (self\<lparr>cls := RecurJacAdaptor, jacbndalg := Some ''recurjac''\<rparr>))"

definition SpectralAdaptor_init ::
  "externals \<Rightarrow> string \<Rightarrow> torch_layer list \<Rightarrow> error + adaptor" where
  "SpectralAdaptor_init ext dataset net =
     (case RecurJacBase_init ext dataset net of
        Inl e \<Rightarrow> Inl e
      | Inr self \<Rightarrow> Inr (self\<lparr>cls := SpectralAdaptor, layerbndalg := ''spectral''\<rparr>))"

definition FastLinAdaptor_init ::
  "externals \<Rightarrow> string \<Rightarrow> torch_layer list \<Rightarrow> error + adaptor" where
  "FastLinAdaptor_init ext dataset net =
     (case RecurJacBase_init ext dataset net of
        Inl e \<Rightarrow> Inl e
      | Inr self \<Rightarrow>
          Inr (self\<lparr>cls := FastLinAdaptor, jacbndalg := Some ''disable'',
                     layerbndalg := ''fastlin''\<rparr>))"

subsection \<open>The opening of every method\<close>

text \<open>\<^verbatim>\<open>{'1': 1, '2': 2, 'inf': np.inf}[norm_type]\<close>: any other key raises KeyError.\<close>

definition norm_of :: "string \<Rightarrow> error + enat" where
  "norm_of norm_type =
     (case map_of [(''1'', 1), (''2'', 2), (''inf'', \<infinity>)] norm_type of
        None \<Rightarrow> Inl KeyError
      | Some p \<Rightarrow> Inr p)"

text \<open>
  \<^verbatim>\<open>np.argmax(pred, axis=0)\<close>: the first index of the largest entry; ValueError on an
  empty array.
\<close>

fun argmax_from :: "nat \<Rightarrow> real \<Rightarrow> nat \<Rightarrow> real list \<Rightarrow> nat" where
  "argmax_from best bv i [] = best"
| "argmax_from best bv i (x # xs) =
     (if bv < x then argmax_from i x (i + 1) xs else argmax_from best bv (i + 1) xs)"

definition argmax :: "real list \<Rightarrow> error + nat" where
  "argmax pred = (case pred of [] \<Rightarrow> Inl ValueError | x # xs \<Rightarrow> Inr (argmax_from 0 x 1 xs))"

text \<open>
  The first four statements of \<open>verify\<close> and of both \<open>calc_radius\<close> methods are the same:
  look the norm up, predict on the batch \<^verbatim>\<open>input.unsqueeze(0)\<close>, take \<^verbatim>\<open>preds[0]\<close> and its
  argmax. The result is the norm, the prediction vector and the predicted label, with the
  calls made so far.
\<close>

definition predict_label ::
  "externals \<Rightarrow> adaptor \<Rightarrow> tensor \<Rightarrow> string \<Rightarrow> (error + (enat \<times> tensor \<times> nat)) \<times> event list" where
  "predict_label ext self input norm_type =
     (case norm_of norm_type of
        Inl e \<Rightarrow> (Inl e, [])
      | Inr nrm \<Rightarrow>
          (let batch = [input];
               preds = predict ext (rbm_model (model self)) batch;
               ev = [Predict (rbm_model (model self)) batch]
           in case preds of
                [] \<Rightarrow> (Inl IndexError, ev)
              | pred # _ \<Rightarrow>
                  (case argmax pred of
                     Inl e \<Rightarrow> (Inl e, ev)
                   | Inr pred_label \<Rightarrow> (Inr (nrm, pred, pred_label), ev))))"

subsection \<open>The argument lists handed to RecurJac\<close>

definition cbi_call :: "adaptor \<Rightarrow> nat \<Rightarrow> tensor \<Rightarrow> tensor \<Rightarrow> enat \<Rightarrow> real \<Rightarrow> cbi_args" where
  "cbi_call self pred_label input pred nrm eps =
     \<lparr>cbi_weights = weights self, cbi_biases = biases self, cbi_pred_label = pred_label,
      cbi_target = - 1, cbi_input = input, cbi_pred = pred,
      cbi_numlayer = length (weights self), cbi_norm = nrm, cbi_eps = eps,
      cbi_lipsteps = lipsteps self, cbi_layerbndalg = layerbndalg self,
      cbi_jacbndalg = jacbndalg self, cbi_untargeted = True,
      cbi_activation = rbm_activation (model self),
      cbi_activation_param = rbm_activation_param (model self),
      cbi_lipsdir = lipsdir self, cbi_lipsshift = lipsshift self\<rparr>"

definition cb_call :: "adaptor \<Rightarrow> nat \<Rightarrow> tensor \<Rightarrow> tensor \<Rightarrow> enat \<Rightarrow> real \<Rightarrow> cb_args" where
  "cb_call self pred_label input pred nrm eps =
     \<lparr>cb_weights = weights self, cb_biases = biases self, cb_pred_label = pred_label,
      cb_target = - 1, cb_input = input, cb_pred = pred,
      cb_numlayer = length (weights self), cb_norm = nrm, cb_eps = eps,
      cb_layerbndalg = layerbndalg self, cb_jacbndalg = ''disable'',
      cb_untargeted = True, cb_use_quad = False,
      cb_activation = rbm_activation (model self),
      cb_activation_param = rbm_activation_param (model self),
      cb_bounded_input = True\<rparr>"

definition sb_call :: "adaptor \<Rightarrow> nat \<Rightarrow> tensor \<Rightarrow> tensor \<Rightarrow> enat \<Rightarrow> sb_args" where
  "sb_call self pred_label input pred nrm =
     \<lparr>sb_weights = weights self, sb_biases = biases self, sb_pred_label = pred_label,
      sb_target = - 1, sb_input = input, sb_pred = pred,
      sb_numlayer = length (weights self),
      sb_activation = rbm_activation (model self), sb_norm = nrm, sb_untargeted = True\<rparr>"

subsection \<open>RecurJacBase.verify\<close>

definition RecurJacBase_verify ::
  "externals \<Rightarrow> adaptor \<Rightarrow> tensor \<Rightarrow> nat \<Rightarrow> string \<Rightarrow> real \<Rightarrow> outcome" where
  "RecurJacBase_verify ext self input label norm_type radius =
     (case predict_label ext self input norm_type of
        (Inl e, ev) \<Rightarrow> \<lparr>result = Inl e, self_after = self, calls = ev\<rparr>
      | (Inr (nrm, pred, pred_label), ev) \<Rightarrow>
          if pred_label \<noteq> label then
            \<lparr>result = Inr (PyFloat 0), self_after = self, calls = ev\<rparr>
          else if jacbndalg self \<noteq> Some ''disable'' then
            (let args = cbi_call self pred_label input pred nrm radius;
                 robustness_lb = compute_bounds_integral ext args
             in \<lparr>result = Inr (PyBool (robustness_lb = radius)), self_after = self,
                  calls = ev @ [ComputeBoundsIntegral args]\<rparr>)
          else
            (let args = cb_call self pred_label input pred nrm radius;
                 gap_gx = compute_bounds ext args
             in \<lparr>result = Inr (PyBool (gap_gx \<ge> 0)), self_after = self,
                  calls = ev @ [ComputeBounds args]\<rparr>))"

subsection \<open>RecurJacBase.calc_radius\<close>

text \<open>
  Running the library's search against a callback: each question is answered by the
  callback, whose external call is logged.
\<close>

primrec run_search :: "(real \<Rightarrow> (bool \<times> real) \<times> event) \<Rightarrow> search \<Rightarrow> real \<times> event list" where
  "run_search cond (Return r) = (r, [])"
| "run_search cond (Query current k) =
     (let (answer, ev) = cond current;
          (r, evs) = run_search cond (k answer)
      in (r, ev # evs))"

text \<open>The two closures \<^verbatim>\<open>binary_search_cond\<close> of \<open>calc_radius\<close>.\<close>

definition cond_integral ::
  "externals \<Rightarrow> adaptor \<Rightarrow> nat \<Rightarrow> tensor \<Rightarrow> tensor \<Rightarrow> enat \<Rightarrow> real \<Rightarrow> (bool \<times> real) \<times> event" where
  "cond_integral ext self pred_label input pred nrm current_eps =
     (let args = cbi_call self pred_label input pred nrm current_eps;
          robustness_lb = compute_bounds_integral ext args
      in ((robustness_lb = current_eps, robustness_lb), ComputeBoundsIntegral args))"

definition cond_gap ::
  "externals \<Rightarrow> adaptor \<Rightarrow> nat \<Rightarrow> tensor \<Rightarrow> tensor \<Rightarrow> enat \<Rightarrow> real \<Rightarrow> (bool \<times> real) \<times> event" where
  "cond_gap ext self pred_label input pred nrm current =
     (let args = cb_call self pred_label input pred nrm current;
          gap_gx = compute_bounds ext args
      in ((gap_gx \<ge> 0, gap_gx), ComputeBounds args))"

definition RecurJacBase_calc_radius ::
  "externals \<Rightarrow> adaptor \<Rightarrow> tensor \<Rightarrow> nat \<Rightarrow> string \<Rightarrow> real \<Rightarrow> real \<Rightarrow> outcome" where
  "RecurJacBase_calc_radius ext self input label norm_type upper eps =
     (case predict_label ext self input norm_type of
        (Inl e, ev) \<Rightarrow> \<lparr>result = Inl e, self_after = self, calls = ev\<rparr>
      | (Inr (nrm, pred, pred_label), ev) \<Rightarrow>
          if pred_label \<noteq> label then
            \<lparr>result = Inr (PyFloat 0), self_after = self, calls = ev\<rparr>
          else if jacbndalg self \<noteq> Some ''disable'' then
            (let (robustness_lb, evs) =
                   run_search (cond_integral ext self pred_label input pred nrm)
                     (binary_search ext upper (steps self))
             in \<lparr>result = Inr (PyFloat robustness_lb), self_after = self,
                  calls = ev @ [BinarySearchCall upper (steps self)] @ evs
                            @ [BinarySearchReturn robustness_lb]\<rparr>)
          else
            (let (robustness_lb, evs) =
                   run_search (cond_gap ext self pred_label input pred nrm)
                     (binary_search ext eps (steps self))
             in \<lparr>result = Inr (PyFloat robustness_lb), self_after = self,
                  calls = ev @ [BinarySearchCall eps (steps self)] @ evs
                            @ [BinarySearchReturn robustness_lb]\<rparr>))"

subsection \<open>SpectralAdaptor\<close>

definition SpectralAdaptor_calc_radius ::
  "externals \<Rightarrow> adaptor \<Rightarrow> tensor \<Rightarrow> nat \<Rightarrow> string \<Rightarrow> real \<Rightarrow> real \<Rightarrow> outcome" where
  "SpectralAdaptor_calc_radius ext self input label norm_type upper eps =
     (case predict_label ext self input norm_type of
        (Inl e, ev) \<Rightarrow> \<lparr>result = Inl e, self_after = self, calls = ev\<rparr>
      | (Inr (nrm, pred, pred_label), ev) \<Rightarrow>
          if pred_label \<noteq> label then
            \<lparr>result = Inr (PyFloat 0), self_after = self, calls = ev\<rparr>
          else
            (let args = sb_call self pred_label input pred nrm;
                 robustness_lb = spectral_bound ext args
             in \<lparr>result = Inr (PyFloat robustness_lb), self_after = self,
                  calls = ev @ [SpectralBound args]\<rparr>))"

text \<open>Python's \<^verbatim>\<open>radius <= v\<close>; a \<^verbatim>\<open>bool\<close> on the right counts as 0 or 1.\<close>

fun py_le :: "real \<Rightarrow> pyval \<Rightarrow> pyval" where
  "py_le radius (PyFloat r) = PyBool (radius \<le> r)"
| "py_le radius (PyBool b) = PyBool (radius \<le> (if b then 1 else 0))"

text \<open>
  \<open>SpectralAdaptor.verify\<close> is \<^verbatim>\<open>radius <= self.calc_radius(input, label, norm_type)\<close>,
  with the defaults \<^verbatim>\<open>upper=0.5\<close> and \<^verbatim>\<open>eps=1e-4\<close>; an exception of \<open>calc_radius\<close>
  passes through.
\<close>

definition SpectralAdaptor_verify ::
  "externals \<Rightarrow> adaptor \<Rightarrow> tensor \<Rightarrow> nat \<Rightarrow> string \<Rightarrow> real \<Rightarrow> outcome" where
  "SpectralAdaptor_verify ext self input label norm_type radius =
     (let out = SpectralAdaptor_calc_radius ext self input label norm_type (1/2) (1/10000)
      in \<lparr>result = (case result out of Inl e \<Rightarrow> Inl e | Inr v \<Rightarrow> Inr (py_le radius v)),
           self_after = self_after out, calls = calls out\<rparr>)"

subsection \<open>Method dispatch\<close>

text \<open>Only \<open>SpectralAdaptor\<close> overrides the two methods; the others inherit them.\<close>

definition verify ::
  "externals \<Rightarrow> adaptor \<Rightarrow> tensor \<Rightarrow> nat \<Rightarrow> string \<Rightarrow> real \<Rightarrow> outcome" where
  "verify ext self input label norm_type radius =
     (case cls self of
        SpectralAdaptor \<Rightarrow> SpectralAdaptor_verify ext self input label norm_type radius
      | _ \<Rightarrow> RecurJacBase_verify ext self input label norm_type radius)"

definition calc_radius ::
  "externals \<Rightarrow> adaptor \<Rightarrow> tensor \<Rightarrow> nat \<Rightarrow> string \<Rightarrow> real \<Rightarrow> real \<Rightarrow> outcome" where
  "calc_radius ext self input label norm_type upper eps =
     (case cls self of
        SpectralAdaptor \<Rightarrow> SpectralAdaptor_calc_radius ext self input label norm_type upper eps
      | _ \<Rightarrow> RecurJacBase_calc_radius ext self input label norm_type upper eps)"

section \<open>What the layers compute\<close>

text \<open>
  The documented forward functions of the layer classes, in exact arithmetic, on a sample
  stored as a flat row-major vector (so that flattening leaves the data as it is). A shape
  the layer rejects gives \<open>None\<close>. torch: \<^verbatim>\<open>Linear\<close> is \<open>y = x W\<^sup>T + b\<close>, \<^verbatim>\<open>LeakyReLU\<close> is
  \<open>max(0, x) + negative_slope * min(0, x)\<close>, \<^verbatim>\<open>Dropout\<close> is the identity in evaluation mode.
  keras: \<^verbatim>\<open>Dense\<close> is \<open>y = x K + b\<close> with a kernel of shape (inputs, units), \<^verbatim>\<open>LeakyReLU\<close> is
  \<open>x\<close> for \<open>x \<ge> 0\<close> and \<open>alpha * x\<close> below. The forward function of a module of another
  class is not modelled.
\<close>

definition relu :: "real \<Rightarrow> real" where
  "relu x = max 0 x"

definition torch_leaky_relu :: "real \<Rightarrow> real \<Rightarrow> real" where
  "torch_leaky_relu slope x = max 0 x + slope * min 0 x"

definition keras_leaky_relu :: "real \<Rightarrow> real \<Rightarrow> real" where
  "keras_leaky_relu a x = (if x \<ge> 0 then x else a * x)"

definition dot :: "real list \<Rightarrow> real list \<Rightarrow> real" where
  "dot x y = sum_list (map2 (*) x y)"

fun torch_forward :: "torch_layer \<Rightarrow> tensor \<Rightarrow> tensor option" where
  "torch_forward Flatten x = Some x"
| "torch_forward (Linear i o' W b) x =
     (if length x = shape1 W \<and> (case b of None \<Rightarrow> True | Some bv \<Rightarrow> length bv = shape0 W)
      then Some (map (\<lambda>j. dot x (rows W ! j) + (case b of None \<Rightarrow> 0 | Some bv \<Rightarrow> bv ! j))
                  [0..<shape0 W])
      else None)"
| "torch_forward ReLU x = Some (map relu x)"
| "torch_forward Tanh x = Some (map tanh x)"
| "torch_forward (LeakyReLU slope) x = Some (map (torch_leaky_relu slope) x)"
| "torch_forward (Dropout p) x = Some x"
| "torch_forward (Other c) x = None"

fun torch_sequential :: "torch_layer list \<Rightarrow> tensor \<Rightarrow> tensor option" where
  "torch_sequential [] x = Some x"
| "torch_sequential (l # ls) x =
     (case torch_forward l x of None \<Rightarrow> None | Some y \<Rightarrow> torch_sequential ls y)"

fun keras_call :: "keras_layer \<Rightarrow> tensor \<Rightarrow> tensor option" where
  "keras_call (KFlatten s) x = Some x"
| "keras_call (KDense u K b) x =
     (if length x = shape0 K \<and> shape1 K = u \<and> length b = u
      then Some (map (\<lambda>j. (\<Sum>i\<leftarrow>[0..<shape0 K]. x ! i * (rows K ! i ! j)) + b ! j) [0..<u])
      else None)"
| "keras_call (KActivation kind name) x =
     (if kind = ''relu'' then Some (map relu x)
      else if kind = ''tanh'' then Some (map tanh x)
      else None)"
| "keras_call (KLeakyReLU a name) x = Some (map (keras_leaky_relu a) x)"

fun keras_sequential :: "keras_layer list \<Rightarrow> tensor \<Rightarrow> tensor option" where
  "keras_sequential [] x = Some x"
| "keras_sequential (l # ls) x =
     (case keras_call l x of None \<Rightarrow> None | Some y \<Rightarrow> keras_sequential ls y)"

text \<open>
  What \<^verbatim>\<open>nn.Linear(i, o)\<close> guarantees of its parameters: the weight has shape \<open>(o, i)\<close>
  and the bias, when there is one, length \<open>o\<close>.
\<close>

definition wf_tensor2 :: "tensor2 \<Rightarrow> bool" where
  "wf_tensor2 W = (length (rows W) = shape0 W \<and> list_all (\<lambda>r. length r = shape1 W) (rows W))"

fun wf_layer :: "torch_layer \<Rightarrow> bool" where
  "wf_layer (Linear i o' W b) =
     (wf_tensor2 W \<and> shape0 W = o' \<and> shape1 W = i \<and>
      (case b of None \<Rightarrow> True | Some bv \<Rightarrow> length bv = o'))"
| "wf_layer _ = True"

section \<open>The vocabulary of the statements\<close>

text \<open>
  The conversion as it is described: a Linear layer becomes a Dense layer with the
  transposed weight and the same bias, an activation layer the keras activation of the
  same kind, LeakyReLU keeping its slope.
\<close>

fun corresponds :: "torch_layer \<Rightarrow> keras_layer \<Rightarrow> bool" where
  "corresponds Flatten k = is_KFlatten k"
| "corresponds (Linear i o' W b) k =
     (case k of KDense u K kb \<Rightarrow> u = o' \<and> K = t W \<and> b = Some kb | _ \<Rightarrow> False)"
| "corresponds ReLU k = (case k of KActivation kind name \<Rightarrow> kind = ''relu'' | _ \<Rightarrow> False)"
| "corresponds Tanh k = (case k of KActivation kind name \<Rightarrow> kind = ''tanh'' | _ \<Rightarrow> False)"
| "corresponds (LeakyReLU slope) k =
     (case k of KLeakyReLU a name \<Rightarrow> a = slope | _ \<Rightarrow> False)"
| "corresponds (Dropout p) k = False"
| "corresponds (Other c) k = False"

text \<open>A layer of one of the six classes the \<^verbatim>\<open>isinstance\<close> chain knows.\<close>

fun supported :: "torch_layer \<Rightarrow> bool" where
  "supported (Other c) = False"
| "supported _ = True"

fun activation_kind :: "torch_layer \<Rightarrow> string option" where
  "activation_kind ReLU = Some ''relu''"
| "activation_kind Tanh = Some ''tanh''"
| "activation_kind (LeakyReLU slope) = Some ''leaky''"
| "activation_kind _ = None"

text \<open>The activation kinds a model's activation layers use.\<close>

definition activation_kinds :: "torch_layer list \<Rightarrow> string set" where
  "activation_kinds net = set (List.map_filter activation_kind net)"

text \<open>
  What may follow the prediction: nothing, one call of a bound function, or a binary
  search, whose callback calls are bound functions and which ends the sequence with its
  return.
\<close>

fun is_bound_call :: "event \<Rightarrow> bool" where
  "is_bound_call (ComputeBoundsIntegral a) = True"
| "is_bound_call (ComputeBounds a) = True"
| "is_bound_call (SpectralBound a) = True"
| "is_bound_call _ = False"

fun is_search_return :: "event \<Rightarrow> bool" where
  "is_search_return (BinarySearchReturn r) = True"
| "is_search_return _ = False"

fun after_predict :: "event list \<Rightarrow> bool" where
  "after_predict [] = True"
| "after_predict (BinarySearchCall init n # evs) =
     (evs \<noteq> [] \<and> is_search_return (last evs) \<and> list_all is_bound_call (butlast evs))"
| "after_predict [b] = is_bound_call b"
| "after_predict _ = False"

text \<open>
  The label the model predicts for the input is the given one (and the opening statements
  raised nothing).
\<close>

definition predicted_label_is :: "externals \<Rightarrow> adaptor \<Rightarrow> tensor \<Rightarrow> string \<Rightarrow> nat \<Rightarrow> bool" where
  "predicted_label_is ext self x nt label =
     (case fst (predict_label ext self x nt) of
        Inl e \<Rightarrow> False
      | Inr (nrm, pred, pred_label) \<Rightarrow> pred_label = label)"

text \<open>
  The calls of one method call are in order: the first is the prediction of the adaptor's
  keras model on the input, what follows it is a bound-function call or a binary search as
  above, and anything follows it only when the predicted label is the given one.
\<close>

definition call_order :: "externals \<Rightarrow> adaptor \<Rightarrow> tensor \<Rightarrow> string \<Rightarrow> nat \<Rightarrow> event list \<Rightarrow> bool" where
  "call_order ext self x nt label evs =
     (case evs of
        [] \<Rightarrow> False
      | e # rest \<Rightarrow>
          e = Predict (rbm_model (model self)) [x] \<and> after_predict rest \<and>
          (rest \<noteq> [] \<longrightarrow> predicted_label_is ext self x nt label))"

section \<open>Example inputs\<close>

text \<open>
  A small network and stand-ins for the external functions, used to evaluate the
  definitions on concrete inputs. The stand-in \<open>predict\<close> evaluates the keras model, the
  bound functions certify radii up to \<open>1/4\<close>, \<open>spectral_bound\<close> answers \<open>3\<close>, and the
  search asks at its start value and, on failure, once more at half of it.
\<close>

definition example_weight :: tensor2 where
  "example_weight = \<lparr>shape0 = 2, shape1 = 2, rows = [[3, - 1], [1, 1]]\<rparr>"

definition example_net :: "torch_layer list" where
  "example_net =
     [Flatten, Linear 2 2 example_weight (Some [1, 0]), Dropout (1/2), LeakyReLU (1/10)]"

definition example_kernel :: tensor2 where
  "example_kernel = \<lparr>shape0 = 2, shape1 = 2, rows = [[3, 1], [- 1, 1]]\<rparr>"

definition example_keras :: "keras_layer list" where
  "example_keras =
     [KFlatten [1, 1, 2], KDense 2 example_kernel [1, 0], KLeakyReLU (1/10) ''leaky_4'']"

definition example_predict :: "keras_layer list \<Rightarrow> tensor list \<Rightarrow> tensor list" where
  "example_predict km batch =
     map (\<lambda>x. case keras_sequential km x of None \<Rightarrow> [] | Some y \<Rightarrow> y) batch"

definition example_search :: "real \<Rightarrow> nat \<Rightarrow> search" where
  "example_search init max_steps =
     Query init (\<lambda>(ok, v).
       if ok then Return init
       else Query (init / 2) (\<lambda>(ok2, v2). Return (if ok2 then init / 2 else 0)))"

definition example_ext :: externals where
  "example_ext =
     \<lparr>get_input_shape = (\<lambda>d. [1, 1, 2]),
      predict = example_predict,
      get_weights_list =
        (\<lambda>m. (map (\<lambda>l. t (kernel l)) (rbm_U m @ [rbm_W m]),
              map kbias (rbm_U m @ [rbm_W m]))),
      compute_bounds_integral = (\<lambda>a. min (cbi_eps a) (1/4)),
      compute_bounds = (\<lambda>a. 1/4 - cb_eps a),
      spectral_bound = (\<lambda>a. 3),
      binary_search = example_search\<rparr>"

definition example_base :: adaptor where
  "example_base =
     \<lparr>cls = RecurJacBase,
      model = \<lparr>rbm_model = example_keras, rbm_activation = ''leaky'',
               rbm_activation_param = Some (1/10), rbm_U = [],
               rbm_W = KDense 2 example_kernel [1, 0]\<rparr>,
      weights = [example_weight], biases = [[1, 0]], lipsteps = 15,
      layerbndalg = ''crown-general'', bounded_input = True, jacbndalg = None,
      lipsdir = - 1, lipsshift = 1, steps = 15\<rparr>"

definition example_relu_net :: "torch_layer list" where
  "example_relu_net = [Flatten, Linear 2 2 example_weight (Some [1, 0]), ReLU]"

definition example_relu_keras :: "keras_layer list" where
  "example_relu_keras =
     [KFlatten [1, 1, 2], KDense 2 example_kernel [1, 0], KActivation ''relu'' ''relu_3'']"

definition example_relu_base :: adaptor where
  "example_relu_base =
     \<lparr>cls = RecurJacBase,
      model = \<lparr>rbm_model = example_relu_keras, rbm_activation = ''relu'',
               rbm_activation_param = None, rbm_U = [],
               rbm_W = KDense 2 example_kernel [1, 0]\<rparr>,
      weights = [example_weight], biases = [[1, 0]], lipsteps = 15,
      layerbndalg = ''crown-adaptive'', bounded_input = True, jacbndalg = None,
      lipsdir = - 1, lipsshift = 1, steps = 15\<rparr>"

definition example_fastlip :: adaptor where
  "example_fastlip = example_base\<lparr>cls := FastLipAdaptor, jacbndalg := Some ''fastlip''\<rparr>"

definition example_recurjac :: adaptor where
  "example_recurjac = example_base\<lparr>cls := RecurJacAdaptor, jacbndalg := Some ''recurjac''\<rparr>"

definition example_spectral :: adaptor where
  "example_spectral = example_base\<lparr>cls := SpectralAdaptor, layerbndalg := ''spectral''\<rparr>"

definition example_fastlin :: adaptor where
  "example_fastlin =
     example_base\<lparr>cls := FastLinAdaptor, jacbndalg := Some ''disable'',
                   layerbndalg := ''fastlin''\<rparr>"

section \<open>The conversion\<close>

lemma map2_nth: "length xs = length ys \<Longrightarrow>
  map2 f xs ys = map (\<lambda>i. f (xs ! i) (ys ! i)) [0..<length xs]"
  by (rule nth_equalityI) auto

lemma dot_sum: "length x = length r \<Longrightarrow> dot x r = (\<Sum>i\<leftarrow>[0..<length x]. x ! i * r ! i)"
  by (simp add: dot_def map2_nth)

lemma t_entry: "i < shape1 W \<Longrightarrow> j < length (rows W) \<Longrightarrow> rows (t W) ! i ! j = rows W ! j ! i"
  by (simp add: t_def)

lemma dense_linear:
  assumes "wf_tensor2 W" "length x = shape1 W" "j < shape0 W"
  shows "(\<Sum>i\<leftarrow>[0..<shape0 (t W)]. x ! i * (rows (t W) ! i ! j)) = dot x (rows W ! j)"
proof -
  have len: "length (rows W ! j) = shape1 W" and j: "j < length (rows W)"
    using assms by (auto simp: wf_tensor2_def list_all_length)
  have "(\<Sum>i\<leftarrow>[0..<shape1 W]. x ! i * (rows (t W) ! i ! j))
      = (\<Sum>i\<leftarrow>[0..<shape1 W]. x ! i * (rows W ! j ! i))"
    by (rule arg_cong [where f = sum_list], rule map_cong) (auto simp: t_entry j)
  then show ?thesis using assms(2) len by (simp add: dot_sum t_def)
qed

lemma leaky_same: "keras_leaky_relu s x = torch_leaky_relu s x"
  by (simp add: keras_leaky_relu_def torch_leaky_relu_def max_def min_def)

lemma corresponds_linear:
  assumes "corresponds (Linear i o' W b) k" and "wf_layer (Linear i o' W b)"
  shows "keras_call k x = torch_forward (Linear i o' W b) x"
proof -
  from assms(1) obtain kb where k: "k = KDense o' (t W) kb" and b: "b = Some kb"
    by (cases k) auto
  from assms(2) b have wf: "wf_tensor2 W" "shape0 W = o'" "shape1 W = i" "length kb = o'"
    by auto
  have sh: "shape0 (t W) = shape1 W" "shape1 (t W) = shape0 W" by (simp_all add: t_def)
  show ?thesis
  proof (cases "length x = shape1 W")
    case True
    have "map (\<lambda>j. (\<Sum>i\<leftarrow>[0..<shape0 (t W)]. x ! i * (rows (t W) ! i ! j)) + kb ! j) [0..<o']
        = map (\<lambda>j. dot x (rows W ! j) + kb ! j) [0..<o']"
      using dense_linear [OF wf(1) True] wf(2) by (intro map_cong) auto
    then show ?thesis using True wf k b sh by simp
  next
    case False
    then show ?thesis using k b sh by simp
  qed
qed

lemma corresponds_call:
  assumes "corresponds l k" and "wf_layer l"
  shows "keras_call k x = torch_forward l x"
proof (cases l)
  case (Linear i o' W b)
  with assms have "corresponds (Linear i o' W b) k" and "wf_layer (Linear i o' W b)"
    by (simp_all only:)
  then show ?thesis unfolding Linear by (rule corresponds_linear)
next
  case Flatten
  with assms show ?thesis by (cases k) auto
next
  case ReLU
  with assms show ?thesis by (cases k) auto
next
  case Tanh
  with assms show ?thesis by (cases k) auto
next
  case (LeakyReLU s)
  with assms show ?thesis by (cases k) (auto simp: leaky_same)
next
  case (Dropout p)
  with assms show ?thesis by simp
next
  case (Other c)
  with assms show ?thesis by simp
qed

lemma corresponds_sequential:
  "list_all2 corresponds (filter (\<lambda>l. \<not> is_Dropout l) m) ks \<Longrightarrow> list_all wf_layer m \<Longrightarrow>
   keras_sequential ks x = torch_sequential m x"
proof (induction m arbitrary: ks x)
  case Nil
  then show ?case by simp
next
  case (Cons l m)
  show ?case
  proof (cases "is_Dropout l")
    case True
    then obtain p where "l = Dropout p" by (cases l) auto
    with Cons show ?thesis by simp
  next
    case False
    with Cons.prems obtain k ks' where ks: "ks = k # ks'" "corresponds l k"
      "list_all2 corresponds (filter (\<lambda>l. \<not> is_Dropout l) m) ks'"
      by (auto simp: list_all2_Cons1)
    have "keras_call k x = torch_forward l x"
      using corresponds_call ks(2) Cons.prems(2) by simp
    then show ?thesis using ks Cons.IH [OF ks(3)] Cons.prems(2)
      by (simp split: option.splits)
  qed
qed

lemma loop_Inr:
  "torch2keras_loop ish m n ans act ap = Inr (ans', act', ap') \<Longrightarrow>
   (\<exists>ks. ans' = ans @ ks \<and> list_all2 corresponds (filter (\<lambda>l. \<not> is_Dropout l) m) ks) \<and>
   act' = act @ List.map_filter activation_kind m \<and> list_all supported m"
proof (induction m arbitrary: n ans act ap)
  case Nil
  then show ?case by (simp add: map_filter_simps)
next
  case (Cons l m)
  show ?case
  proof (cases l)
    case Flatten
    with Cons.prems Cons.IH [of "n + 1" "ans @ [KFlatten ish]" act ap]
    show ?thesis by (auto simp: map_filter_simps)
  next
    case (Linear i o' W b)
    with Cons.prems obtain bv where b: "b = Some bv" by (cases b) auto
    with Linear Cons.prems Cons.IH [of "n + 1" "ans @ [KDense o' (t W) bv]" act ap]
    show ?thesis by (auto simp: map_filter_simps split: if_splits)
  next
    case ReLU
    with Cons.prems
      Cons.IH [of "n + 1" "ans @ [KActivation ''relu'' (''relu_'' @ str_nat (n + 1))]"
        "act @ [''relu'']" ap]
    show ?thesis by (auto simp: map_filter_simps)
  next
    case Tanh
    with Cons.prems
      Cons.IH [of "n + 1" "ans @ [KActivation ''tanh'' (''tanh_'' @ str_nat (n + 1))]"
        "act @ [''tanh'']" ap]
    show ?thesis by (auto simp: map_filter_simps)
  next
    case (LeakyReLU s)
    with Cons.prems
      Cons.IH [of "n + 1" "ans @ [KLeakyReLU s (''leaky_'' @ str_nat (n + 1))]"
        "act @ [''leaky'']" "Some s"]
    show ?thesis by (auto simp: map_filter_simps)
  next
    case (Dropout p)
    with Cons.prems Cons.IH [of "n + 1" ans act ap]
    show ?thesis by (auto simp: map_filter_simps)
  next
    case (Other c)
    with Cons.prems show ?thesis by simp
  qed
qed

lemma loop_append:
  "torch2keras_loop ish (pre @ rest) n ans act ap =
     (case torch2keras_loop ish pre n ans act ap of
        Inl e \<Rightarrow> Inl e
      | Inr (ans', act', ap') \<Rightarrow> torch2keras_loop ish rest (n + length pre) ans' act' ap')"
proof (induction pre arbitrary: n ans act ap)
  case Nil
  show ?case by simp
next
  case (Cons l pre)
  show ?case
    by (cases l) (simp_all add: Cons.IH split: option.splits sum.splits prod.splits)
qed

lemma loop_error:
  "torch2keras_loop ish m n ans act ap = Inl e \<Longrightarrow>
   e = NotImplementedError \<or> e = AttributeError \<or> e = ValueError"
proof (induction m arbitrary: n ans act ap)
  case Nil
  then show ?case by simp
next
  case (Cons l m)
  show ?case
  proof (cases l)
    case (Linear i o' W b)
    with Cons.prems Cons.IH show ?thesis
      by (auto split: option.splits if_splits)
  qed (use Cons.prems Cons.IH in auto)
qed

lemma remdups_single: "remdups xs = [a] \<Longrightarrow> card (set xs) = 1"
  by (metis card_set length_Cons list.size(3) One_nat_def)

lemma loop_unsupported:
  "\<not> supported l \<Longrightarrow> torch2keras_loop ish (l # rest) n ans act ap = Inl NotImplementedError"
  by (cases l) simp_all

lemma torch2keras_Inr_kinds:
  assumes "torch2keras gis ds net = Inr r"
  shows "list_all supported net \<and> card (activation_kinds net) = 1"
proof -
  from assms obtain ans act ap a where
    loop: "torch2keras_loop (gis ds) net 0 [] [] None = Inr (ans, act, ap)"
    and one: "remdups act = [a]"
    by (auto simp: torch2keras_def split: sum.splits list.splits)
  from loop_Inr [OF loop] have "act = List.map_filter activation_kind net"
    and "list_all supported net" by simp_all
  with remdups_single [OF one] show ?thesis by (simp add: activation_kinds_def)
qed

lemma torch2keras_assertion:
  "(torch2keras gis ds net = Inl AssertionError) =
     ((\<exists>s. torch2keras_loop (gis ds) net 0 [] [] None = Inr s) \<and>
      card (activation_kinds net) \<noteq> 1)"
proof (cases "torch2keras_loop (gis ds) net 0 [] [] None")
  case (Inl e)
  with loop_error [OF Inl] show ?thesis by (auto simp: torch2keras_def)
next
  case (Inr s)
  obtain ans acts ap where s: "s = (ans, acts, ap)" by (cases s)
  from loop_Inr [OF Inr [unfolded s]] have acts: "acts = List.map_filter activation_kind net"
    by simp
  have "(length (remdups acts) = 1) = (card (activation_kinds net) = 1)"
    by (simp add: acts activation_kinds_def length_remdups_card_conv)
  then have "(\<exists>a. remdups acts = [a]) = (card (activation_kinds net) = 1)"
    by (metis length_0_conv length_Suc_conv One_nat_def)
  then show ?thesis using Inr s
    by (auto simp: torch2keras_def split: list.splits)
qed

lemma torch2keras_not_implemented:
  assumes "torch2keras_loop (gis ds) pre 0 [] [] None = Inr s" and "\<not> supported l"
  shows "torch2keras gis ds (pre @ l # post) = Inl NotImplementedError"
proof -
  obtain ans acts ap where s: "s = (ans, acts, ap)" by (cases s)
  show ?thesis
    using assms(1) loop_unsupported [OF assms(2)]
    by (simp add: torch2keras_def loop_append s)
qed

lemma upt2: "[0..<2] = [0, 1]" by (simp add: upt_rec)

lemma example_torch2keras:
  "torch2keras (get_input_shape example_ext) ''toy'' example_net
     = Inr (example_keras, ''leaky'', Some (1/10))"
  by (simp add: torch2keras_def example_ext_def example_net_def example_keras_def
      example_weight_def example_kernel_def t_def upt2 str_nat.simps set_weights_ok_def)

lemma example_t_kernel: "t example_kernel = example_weight"
  by (simp add: example_kernel_def example_weight_def t_def upt2)

lemma example_base_init: "RecurJacBase_init example_ext ''toy'' example_net = Inr example_base"
  by (simp add: RecurJacBase_init_def RecurBaseModel_init_def example_torch2keras
      example_base_def example_t_kernel)
    (simp add: example_ext_def example_keras_def example_t_kernel)

lemma example_relu_torch2keras:
  "torch2keras (get_input_shape example_ext) ''toy'' example_relu_net
     = Inr (example_relu_keras, ''relu'', None)"
  by (simp add: torch2keras_def example_ext_def example_relu_net_def example_relu_keras_def
      example_weight_def example_kernel_def t_def upt2 str_nat.simps set_weights_ok_def)

lemma example_relu_base_init:
  "RecurJacBase_init example_ext ''toy'' example_relu_net = Inr example_relu_base"
  by (simp add: RecurJacBase_init_def RecurBaseModel_init_def example_relu_torch2keras
      example_relu_base_def example_t_kernel)
    (simp add: example_ext_def example_relu_keras_def example_t_kernel)

lemma example_inits:
  "FastLipAdaptor_init example_ext ''toy'' example_net = Inr example_fastlip"
  "RecurJacAdaptor_init example_ext ''toy'' example_net = Inr example_recurjac"
  "SpectralAdaptor_init example_ext ''toy'' example_net = Inr example_spectral"
  "FastLinAdaptor_init example_ext ''toy'' example_net = Inr example_fastlin"
  by (simp_all add: FastLipAdaptor_init_def RecurJacAdaptor_init_def SpectralAdaptor_init_def
      FastLinAdaptor_init_def example_base_init example_fastlip_def example_recurjac_def
      example_spectral_def example_fastlin_def)

lemma example_keras_eval: "keras_sequential example_keras [1, 5] = Some [- (1/10), 6]"
  by (simp add: example_keras_def example_kernel_def upt2 keras_leaky_relu_def)

lemma example_predict_label:
  "model self = model example_base \<Longrightarrow>
   predict_label example_ext self [1, 5] ''2'' =
     (Inr (2, [- (1/10), 6], 1), [Predict example_keras [[1, 5]]])"
  by (simp add: predict_label_def norm_of_def example_ext_def example_predict_def
      example_base_def example_keras_eval argmax_def)

text \<open>
  C1. For a torch model whose Linear layers have the shapes \<^verbatim>\<open>nn.Linear\<close> gives them,
  the keras model returned by \<open>torch2keras\<close> is the torch model layer by layer with the
  Dropout layers left out (Linear as Dense with the transposed weight and the same bias,
  each activation as the keras activation of the same kind, LeakyReLU with its slope), and
  it computes the same function as the torch model in evaluation mode.
\<close>

theorem torch2keras_refines:
  assumes "torch2keras gis ds net = Inr (ans, act, act_param)"
    and "list_all wf_layer net"
  shows "list_all2 corresponds (filter (\<lambda>l. \<not> is_Dropout l) net) ans \<and>
         (\<forall>x. keras_sequential ans x = torch_sequential net x)"
proof -
  from assms(1) obtain acts where
    "torch2keras_loop (gis ds) net 0 [] [] None = Inr (ans, acts, act_param)"
    by (auto simp: torch2keras_def split: sum.splits list.splits)
  from loop_Inr [OF this]
  have rel: "list_all2 corresponds (filter (\<lambda>l. \<not> is_Dropout l) net) ans" by simp
  with corresponds_sequential [OF rel assms(2)] show ?thesis by simp
qed

theorem torch2keras_refines_witness:
  "torch2keras (get_input_shape example_ext) ''toy'' example_net
     = Inr (example_keras, ''leaky'', Some (1/10)) \<and>
   list_all wf_layer example_net \<and>
   list_all2 corresponds (filter (\<lambda>l. \<not> is_Dropout l) example_net) example_keras \<and>
   keras_sequential example_keras [1, 5] = Some [- (1/10), 6] \<and>
   torch_sequential example_net [1, 5] = Some [- (1/10), 6]"
proof -
  have wf: "list_all wf_layer example_net"
    by (simp add: example_net_def example_weight_def wf_tensor2_def)
  note th = torch2keras_refines [OF example_torch2keras wf]
  from th have "keras_sequential example_keras [1, 5] = torch_sequential example_net [1, 5]"
    by blast
  with th example_torch2keras wf example_keras_eval show ?thesis by (simp only:)
qed

text \<open>
  C8 (amended). \<open>torch2keras\<close> raises NotImplementedError when the loop reaches a layer
  that is none of Flatten, Linear, ReLU, Tanh, LeakyReLU and Dropout: the loop body raises
  there, and so does the whole function when the layers before it were converted. It
  returns only for a model whose layers are all of these classes and whose activation
  layers use exactly one kind. It fails with AssertionError exactly when the loop has
  converted every layer and the activation layers use no kind or at least two kinds. A
  layer that does not convert raises its own error first: a Linear without bias
  AttributeError, a Linear whose arrays keras's \<open>set_weights\<close> does not take ValueError.
\<close>

theorem torch2keras_errors:
  "(\<not> supported l \<longrightarrow>
      torch2keras_loop ish (l # rest) n ans act ap = Inl NotImplementedError) \<and>
   (torch2keras_loop (gis ds) pre 0 [] [] None = Inr s \<and> \<not> supported l \<longrightarrow>
      torch2keras gis ds (pre @ l # post) = Inl NotImplementedError) \<and>
   (torch2keras gis ds net = Inr r \<longrightarrow>
      list_all supported net \<and> card (activation_kinds net) = 1) \<and>
   ((torch2keras gis ds net = Inl AssertionError) =
      ((\<exists>s'. torch2keras_loop (gis ds) net 0 [] [] None = Inr s') \<and>
       (card (activation_kinds net) = 0 \<or> 2 \<le> card (activation_kinds net)))) \<and>
   torch2keras_loop ish (Linear i o' W None # rest) n ans act ap = Inl AttributeError \<and>
   (\<not> set_weights_ok (keras_width ans) o' (t W) bv \<longrightarrow>
      torch2keras_loop ish (Linear i o' W (Some bv) # rest) n ans act ap = Inl ValueError)"
proof (intro conjI impI)
  assume "\<not> supported l"
  then show "torch2keras_loop ish (l # rest) n ans act ap = Inl NotImplementedError"
    by (rule loop_unsupported)
next
  assume "torch2keras_loop (gis ds) pre 0 [] [] None = Inr s \<and> \<not> supported l"
  then show "torch2keras gis ds (pre @ l # post) = Inl NotImplementedError"
    using torch2keras_not_implemented by blast
next
  assume r: "torch2keras gis ds net = Inr r"
  from torch2keras_Inr_kinds [OF r] show "list_all supported net" by simp
  from torch2keras_Inr_kinds [OF r] show "card (activation_kinds net) = 1" by simp
next
  have "(card (activation_kinds net) \<noteq> 1) =
      (card (activation_kinds net) = 0 \<or> 2 \<le> card (activation_kinds net))"
    by arith
  then show "(torch2keras gis ds net = Inl AssertionError) =
      ((\<exists>s'. torch2keras_loop (gis ds) net 0 [] [] None = Inr s') \<and>
       (card (activation_kinds net) = 0 \<or> 2 \<le> card (activation_kinds net)))"
    using torch2keras_assertion [of gis ds net] by simp
next
  show "torch2keras_loop ish (Linear i o' W None # rest) n ans act ap = Inl AttributeError"
    by simp
next
  assume "\<not> set_weights_ok (keras_width ans) o' (t W) bv"
  then show "torch2keras_loop ish (Linear i o' W (Some bv) # rest) n ans act ap = Inl ValueError"
    by simp
qed

theorem torch2keras_errors_witness:
  "torch2keras_loop [1, 1, 2] [Other ''Conv2d'', ReLU] 1 [KFlatten [1, 1, 2]] [] None
     = Inl NotImplementedError \<and>
   torch2keras_loop [1, 1, 2] [Flatten, ReLU, Tanh] 0 [] [] None
     = Inr ([KFlatten [1, 1, 2], KActivation ''relu'' ''relu_2'',
             KActivation ''tanh'' ''tanh_3''], [''relu'', ''tanh''], None) \<and>
   torch2keras (\<lambda>d. [1, 1, 2]) ''toy'' ([Flatten, ReLU, Tanh] @ Other ''Conv2d'' # [ReLU])
     = Inl NotImplementedError \<and>
   torch2keras (get_input_shape example_ext) ''toy'' example_net
     = Inr (example_keras, ''leaky'', Some (1/10)) \<and>
   list_all supported example_net \<and>
   card (activation_kinds example_net) = 1 \<and>
   2 \<le> card (activation_kinds [Flatten, ReLU, Tanh]) \<and>
   torch2keras (\<lambda>d. [1, 1, 2]) ''toy'' [Flatten, ReLU, Tanh] = Inl AssertionError \<and>
   torch2keras_loop [1, 1, 2] [Flatten, Linear 2 2 example_weight (Some [1, 0])] 0 [] [] None
     = Inr ([KFlatten [1, 1, 2], KDense 2 example_kernel [1, 0]], [], None) \<and>
   card (activation_kinds [Flatten, Linear 2 2 example_weight (Some [1, 0])]) = 0 \<and>
   torch2keras (\<lambda>d. [1, 1, 2]) ''toy'' [Flatten, Linear 2 2 example_weight (Some [1, 0])]
     = Inl AssertionError \<and>
   torch2keras_loop [1, 1, 2] [Linear 2 2 example_weight None] 1 [KFlatten [1, 1, 2]] [] None
     = Inl AttributeError \<and>
   \<not> set_weights_ok (keras_width [KFlatten [1, 1, 3]]) 2 (t example_weight) [1, 0] \<and>
   torch2keras_loop [1, 1, 3] [Linear 2 2 example_weight (Some [1, 0])] 1
       [KFlatten [1, 1, 3]] [] None
     = Inl ValueError"
proof -
  let ?gis = "\<lambda>d::string. [1::nat, 1, 2]"
  have pre: "torch2keras_loop (?gis ''toy'') [Flatten, ReLU, Tanh] 0 [] [] None
     = Inr ([KFlatten [1, 1, 2], KActivation ''relu'' ''relu_2'',
             KActivation ''tanh'' ''tanh_3''], [''relu'', ''tanh''], None)"
    by (simp add: str_nat.simps)
  have lin: "torch2keras_loop (?gis ''toy'') [Flatten, Linear 2 2 example_weight (Some [1, 0])]
       0 [] [] None
     = Inr ([KFlatten [1, 1, 2], KDense 2 example_kernel [1, 0]], [], None)"
    by (simp add: set_weights_ok_def example_weight_def example_kernel_def t_def upt2)
  have k0: "card (activation_kinds [Flatten, Linear 2 2 example_weight (Some [1, 0])]) = 0"
    by (simp add: activation_kinds_def map_filter_simps)
  have k2: "2 \<le> card (activation_kinds [Flatten, ReLU, Tanh])"
    by (simp add: activation_kinds_def map_filter_simps)
  have bad: "\<not> set_weights_ok (keras_width [KFlatten [1, 1, 3]]) 2 (t example_weight) [1, 0]"
    by (simp add: set_weights_ok_def example_weight_def t_def)
  have a: "torch2keras_loop [1, 1, 2] [Other ''Conv2d'', ReLU] 1 [KFlatten [1, 1, 2]] [] None
     = Inl NotImplementedError"
    using torch2keras_errors [of "Other ''Conv2d''"] by simp
  have b: "torch2keras ?gis ''toy'' ([Flatten, ReLU, Tanh] @ Other ''Conv2d'' # [ReLU])
     = Inl NotImplementedError"
    using torch2keras_errors [where l = "Other ''Conv2d''" and pre = "[Flatten, ReLU, Tanh]"
        and gis = ?gis and ds = "''toy''"] pre
    by simp
  have c: "list_all supported example_net \<and> card (activation_kinds example_net) = 1"
    using torch2keras_errors [where net = example_net and gis = "get_input_shape example_ext"
        and ds = "''toy''"] example_torch2keras
    by blast
  have d: "torch2keras ?gis ''toy'' [Flatten, ReLU, Tanh] = Inl AssertionError"
    using torch2keras_errors [where net = "[Flatten, ReLU, Tanh]" and gis = ?gis
        and ds = "''toy''"] pre k2
    by blast
  have e: "torch2keras ?gis ''toy'' [Flatten, Linear 2 2 example_weight (Some [1, 0])]
     = Inl AssertionError"
    using torch2keras_errors [where net = "[Flatten, Linear 2 2 example_weight (Some [1, 0])]"
        and gis = ?gis and ds = "''toy''"] lin k0
    by blast
  have f: "torch2keras_loop [1, 1, 2] [Linear 2 2 example_weight None] 1 [KFlatten [1, 1, 2]]
       [] None = Inl AttributeError"
    using torch2keras_errors [where i = 2 and o' = 2 and W = example_weight] by blast
  have g: "torch2keras_loop [1, 1, 3] [Linear 2 2 example_weight (Some [1, 0])] 1
       [KFlatten [1, 1, 3]] [] None = Inl ValueError"
    using torch2keras_errors [where ans = "[KFlatten [1, 1, 3]]" and o' = 2
        and W = example_weight and bv = "[1, 0]"] bad
    by blast
  from a pre b example_torch2keras c k2 d lin k0 e f bad g show ?thesis
    by (simp only: simp_thms)
qed

text \<open>
  C8 as stated fails: a model with no activation layer does not always fail with an
  assertion error. With a Linear layer without bias it fails with AttributeError, and with
  a Linear layer that no Flatten precedes (keras has not built the Dense layer) with
  ValueError.
\<close>

theorem torch2keras_other_errors:
  "card (activation_kinds [Flatten, Linear 2 2 example_weight None]) = 0 \<and>
   torch2keras (get_input_shape example_ext) ''toy'' [Flatten, Linear 2 2 example_weight None]
     = Inl AttributeError \<and>
   card (activation_kinds [Linear 2 2 example_weight (Some [1, 0])]) = 0 \<and>
   torch2keras (get_input_shape example_ext) ''toy'' [Linear 2 2 example_weight (Some [1, 0])]
     = Inl ValueError"
  by (simp add: activation_kinds_def map_filter_simps torch2keras_def set_weights_ok_def)

section \<open>The adaptors\<close>

lemma predict_label_calls:
  "snd (predict_label ext self x nt) = [] \<or>
   snd (predict_label ext self x nt) = [Predict (rbm_model (model self)) [x]]"
  by (simp add: predict_label_def Let_def split: sum.splits list.splits)

lemma predict_label_Inr:
  "fst (predict_label ext self x nt) = Inr v \<Longrightarrow>
   predict_label ext self x nt = (Inr v, [Predict (rbm_model (model self)) [x]])"
  by (auto simp: predict_label_def Let_def split: sum.splits list.splits)

lemma run_search_bound_calls:
  assumes "\<And>c. is_bound_call (snd (cond c))"
  shows "list_all is_bound_call (snd (run_search cond s))"
proof (induction s)
  case (Return r)
  show ?case by simp
next
  case (Query c k)
  have "is_bound_call (snd (cond c))" by (rule assms)
  moreover have "list_all is_bound_call (snd (run_search cond (k (fst (cond c)))))"
    by (rule Query.IH) simp
  ultimately show ?case by (simp add: split_beta Let_def)
qed

lemma cond_bound_call:
  "is_bound_call (snd (cond_integral ext self pl x pred nrm c))"
  "is_bound_call (snd (cond_gap ext self pl x pred nrm c))"
  by (simp_all add: cond_integral_def cond_gap_def Let_def)

lemma base_init_fields:
  assumes "RecurJacBase_init ext ds net = Inr a"
  shows "cls a = RecurJacBase" "lipsteps a = 15" "steps a = 15" "jacbndalg a = None"
    "layerbndalg a =
       (if rbm_activation (model a) = ''relu'' then ''crown-adaptive'' else ''crown-general'')"
  using assms
  by (auto simp: RecurJacBase_init_def Let_def split: sum.splits prod.splits)

lemma fastlip_init_fields:
  assumes "FastLipAdaptor_init ext ds net = Inr a"
  shows "cls a = FastLipAdaptor" "lipsteps a = 15" "steps a = 15"
    "jacbndalg a = Some ''fastlip''"
    "layerbndalg a =
       (if rbm_activation (model a) = ''relu'' then ''crown-adaptive'' else ''crown-general'')"
  using assms base_init_fields [of ext ds net]
  by (auto simp: FastLipAdaptor_init_def split: sum.splits)

lemma recurjac_init_fields:
  assumes "RecurJacAdaptor_init ext ds net = Inr a"
  shows "cls a = RecurJacAdaptor" "lipsteps a = 15" "steps a = 15"
    "jacbndalg a = Some ''recurjac''"
    "layerbndalg a =
       (if rbm_activation (model a) = ''relu'' then ''crown-adaptive'' else ''crown-general'')"
  using assms base_init_fields [of ext ds net]
  by (auto simp: RecurJacAdaptor_init_def split: sum.splits)

lemma spectral_init_fields:
  assumes "SpectralAdaptor_init ext ds net = Inr a"
  shows "cls a = SpectralAdaptor" "lipsteps a = 15" "steps a = 15" "jacbndalg a = None"
    "layerbndalg a = ''spectral''"
  using assms base_init_fields [of ext ds net]
  by (auto simp: SpectralAdaptor_init_def split: sum.splits)

lemma fastlin_init_fields:
  assumes "FastLinAdaptor_init ext ds net = Inr a"
  shows "cls a = FastLinAdaptor" "lipsteps a = 15" "steps a = 15"
    "jacbndalg a = Some ''disable''" "layerbndalg a = ''fastlin''"
  using assms base_init_fields [of ext ds net]
  by (auto simp: FastLinAdaptor_init_def split: sum.splits)

lemma self_after_base_verify:
  "self_after (RecurJacBase_verify ext self x label nt radius) = self"
  by (simp add: RecurJacBase_verify_def Let_def split: prod.splits sum.splits)

lemma self_after_base_calc:
  "self_after (RecurJacBase_calc_radius ext self x label nt upper eps) = self"
  by (simp add: RecurJacBase_calc_radius_def Let_def split: prod.splits sum.splits)

lemma self_after_spectral_calc:
  "self_after (SpectralAdaptor_calc_radius ext self x label nt upper eps) = self"
  by (simp add: SpectralAdaptor_calc_radius_def Let_def split: prod.splits sum.splits)

lemma self_after_verify: "self_after (verify ext self x label nt radius) = self"
  by (simp add: verify_def SpectralAdaptor_verify_def Let_def self_after_base_verify
      self_after_spectral_calc split: adaptor_class.splits)

lemma self_after_calc_radius: "self_after (calc_radius ext self x label nt upper eps) = self"
  by (simp add: calc_radius_def self_after_base_calc self_after_spectral_calc
      split: adaptor_class.splits)

text \<open>
  C6. The constructors fix the bounding-algorithm parameters: FastLipAdaptor has
  \<open>jacbndalg = 'fastlip'\<close>, RecurJacAdaptor \<open>'recurjac'\<close>, FastLinAdaptor
  \<open>jacbndalg = 'disable'\<close> and \<open>layerbndalg = 'fastlin'\<close>, SpectralAdaptor
  \<open>layerbndalg = 'spectral'\<close>; the base class sets \<open>layerbndalg\<close> to \<open>'crown-adaptive'\<close> when
  the model's activation is \<open>'relu'\<close> and to \<open>'crown-general'\<close> otherwise, with
  \<open>lipsteps = 15\<close> and \<open>steps = 15\<close>. \<open>verify\<close> and \<open>calc_radius\<close> leave the object as it
  was.
\<close>

theorem constructor_parameters:
  "(FastLipAdaptor_init ext ds net = Inr a \<longrightarrow>
      jacbndalg a = Some ''fastlip'' \<and> lipsteps a = 15 \<and> steps a = 15 \<and>
      layerbndalg a =
        (if rbm_activation (model a) = ''relu'' then ''crown-adaptive'' else ''crown-general'')) \<and>
   (RecurJacAdaptor_init ext ds net = Inr a \<longrightarrow>
      jacbndalg a = Some ''recurjac'' \<and> lipsteps a = 15 \<and> steps a = 15 \<and>
      layerbndalg a =
        (if rbm_activation (model a) = ''relu'' then ''crown-adaptive'' else ''crown-general'')) \<and>
   (FastLinAdaptor_init ext ds net = Inr a \<longrightarrow>
      jacbndalg a = Some ''disable'' \<and> layerbndalg a = ''fastlin'' \<and>
      lipsteps a = 15 \<and> steps a = 15) \<and>
   (SpectralAdaptor_init ext ds net = Inr a \<longrightarrow>
      layerbndalg a = ''spectral'' \<and> lipsteps a = 15 \<and> steps a = 15) \<and>
   (RecurJacBase_init ext ds net = Inr a \<longrightarrow>
      lipsteps a = 15 \<and> steps a = 15 \<and>
      layerbndalg a =
        (if rbm_activation (model a) = ''relu'' then ''crown-adaptive'' else ''crown-general'')) \<and>
   self_after (verify ext self x label nt radius) = self \<and>
   self_after (calc_radius ext self x label nt upper eps) = self"
  using fastlip_init_fields [of ext ds net a] recurjac_init_fields [of ext ds net a]
    fastlin_init_fields [of ext ds net a] spectral_init_fields [of ext ds net a]
    base_init_fields [of ext ds net a]
  by (simp add: self_after_verify self_after_calc_radius)

theorem constructor_parameters_witness:
  "FastLipAdaptor_init example_ext ''toy'' example_net = Inr example_fastlip \<and>
   jacbndalg example_fastlip = Some ''fastlip'' \<and>
   lipsteps example_fastlip = 15 \<and> steps example_fastlip = 15 \<and>
   layerbndalg example_fastlip = ''crown-general'' \<and>
   RecurJacAdaptor_init example_ext ''toy'' example_net = Inr example_recurjac \<and>
   jacbndalg example_recurjac = Some ''recurjac'' \<and>
   lipsteps example_recurjac = 15 \<and> steps example_recurjac = 15 \<and>
   layerbndalg example_recurjac = ''crown-general'' \<and>
   FastLinAdaptor_init example_ext ''toy'' example_net = Inr example_fastlin \<and>
   jacbndalg example_fastlin = Some ''disable'' \<and> layerbndalg example_fastlin = ''fastlin'' \<and>
   lipsteps example_fastlin = 15 \<and> steps example_fastlin = 15 \<and>
   SpectralAdaptor_init example_ext ''toy'' example_net = Inr example_spectral \<and>
   layerbndalg example_spectral = ''spectral'' \<and>
   lipsteps example_spectral = 15 \<and> steps example_spectral = 15 \<and>
   RecurJacBase_init example_ext ''toy'' example_net = Inr example_base \<and>
   rbm_activation (model example_base) = ''leaky'' \<and>
   layerbndalg example_base = ''crown-general'' \<and>
   lipsteps example_base = 15 \<and> steps example_base = 15 \<and>
   RecurJacBase_init example_ext ''toy'' example_relu_net = Inr example_relu_base \<and>
   rbm_activation (model example_relu_base) = ''relu'' \<and>
   layerbndalg example_relu_base = ''crown-adaptive'' \<and>
   self_after (verify example_ext example_fastlin [1, 5] 1 ''2'' (1/8)) = example_fastlin \<and>
   self_after (calc_radius example_ext example_spectral [1, 5] 1 ''2'' (1/2) (1/10000))
     = example_spectral"
proof -
  have act: "rbm_activation (model example_fastlip) = ''leaky''"
    "rbm_activation (model example_recurjac) = ''leaky''"
    "rbm_activation (model example_base) = ''leaky''"
    "rbm_activation (model example_relu_base) = ''relu''"
    by (simp_all add: example_fastlip_def example_recurjac_def example_base_def
        example_relu_base_def)
  note fl = constructor_parameters [of example_ext "''toy''" example_net example_fastlip
      example_fastlin "[1, 5]" 1 "''2''" "1/8" "1/2" "1/10000"]
  note rj = constructor_parameters [of example_ext "''toy''" example_net example_recurjac
      example_fastlin "[1, 5]" 1 "''2''" "1/8" "1/2" "1/10000"]
  note fn = constructor_parameters [of example_ext "''toy''" example_net example_fastlin
      example_fastlin "[1, 5]" 1 "''2''" "1/8" "1/2" "1/10000"]
  note sp = constructor_parameters [of example_ext "''toy''" example_net example_spectral
      example_spectral "[1, 5]" 1 "''2''" "1/8" "1/2" "1/10000"]
  note ba = constructor_parameters [of example_ext "''toy''" example_net example_base
      example_fastlin "[1, 5]" 1 "''2''" "1/8" "1/2" "1/10000"]
  note re = constructor_parameters [of example_ext "''toy''" example_relu_net example_relu_base
      example_fastlin "[1, 5]" 1 "''2''" "1/8" "1/2" "1/10000"]
  have 1: "jacbndalg example_fastlip = Some ''fastlip'' \<and>
      lipsteps example_fastlip = 15 \<and> steps example_fastlip = 15 \<and>
      layerbndalg example_fastlip = ''crown-general''"
    using fl example_inits(1) act(1) by simp
  have 2: "jacbndalg example_recurjac = Some ''recurjac'' \<and>
      lipsteps example_recurjac = 15 \<and> steps example_recurjac = 15 \<and>
      layerbndalg example_recurjac = ''crown-general''"
    using rj example_inits(2) act(2) by simp
  have 3: "jacbndalg example_fastlin = Some ''disable'' \<and>
      layerbndalg example_fastlin = ''fastlin'' \<and>
      lipsteps example_fastlin = 15 \<and> steps example_fastlin = 15 \<and>
      self_after (verify example_ext example_fastlin [1, 5] 1 ''2'' (1/8)) = example_fastlin"
    using fn example_inits(4) by simp
  have 4: "layerbndalg example_spectral = ''spectral'' \<and>
      lipsteps example_spectral = 15 \<and> steps example_spectral = 15 \<and>
      self_after (calc_radius example_ext example_spectral [1, 5] 1 ''2'' (1/2) (1/10000))
        = example_spectral"
    using sp example_inits(3) by simp
  have 5: "layerbndalg example_base = ''crown-general'' \<and>
      lipsteps example_base = 15 \<and> steps example_base = 15"
    using ba example_base_init act(3) by simp
  have 6: "layerbndalg example_relu_base = ''crown-adaptive''"
    using re example_relu_base_init act(4) by simp
  from 1 2 3 4 5 6 act(3) act(4) example_inits example_base_init example_relu_base_init
  show ?thesis by (simp only:)
qed

lemma base_verify_correct:
  assumes "fst (predict_label ext self x nt) = Inr (nrm, pred, label)"
  shows "RecurJacBase_verify ext self x label nt radius =
     (if jacbndalg self \<noteq> Some ''disable'' then
        \<lparr>result = Inr (PyBool (compute_bounds_integral ext
                      (cbi_call self label x pred nrm radius) = radius)),
         self_after = self,
         calls = [Predict (rbm_model (model self)) [x],
                  ComputeBoundsIntegral (cbi_call self label x pred nrm radius)]\<rparr>
      else
        \<lparr>result = Inr (PyBool (0 \<le> compute_bounds ext (cb_call self label x pred nrm radius))),
         self_after = self,
         calls = [Predict (rbm_model (model self)) [x],
                  ComputeBounds (cb_call self label x pred nrm radius)]\<rparr>)"
  using predict_label_Inr [OF assms]
  by (simp add: RecurJacBase_verify_def Let_def)

lemma verify_not_spectral:
  "cls self \<noteq> SpectralAdaptor \<Longrightarrow>
   verify ext self x label nt radius = RecurJacBase_verify ext self x label nt radius"
  by (simp add: verify_def split: adaptor_class.splits)

lemma calc_radius_not_spectral:
  "cls self \<noteq> SpectralAdaptor \<Longrightarrow>
   calc_radius ext self x label nt upper eps =
     RecurJacBase_calc_radius ext self x label nt upper eps"
  by (simp add: calc_radius_def split: adaptor_class.splits)

lemma verify_spectral:
  "cls self = SpectralAdaptor \<Longrightarrow>
   verify ext self x label nt radius = SpectralAdaptor_verify ext self x label nt radius"
  by (simp add: verify_def)

lemma calc_radius_spectral:
  "cls self = SpectralAdaptor \<Longrightarrow>
   calc_radius ext self x label nt upper eps =
     SpectralAdaptor_calc_radius ext self x label nt upper eps"
  by (simp add: calc_radius_def)

text \<open>
  C3. For a correctly predicted input, the verdict of \<open>RecurJacBase.verify\<close> is read off
  the external library's answer: with the Jacobian bounding algorithm enabled
  (FastLipAdaptor, RecurJacAdaptor) it is True exactly when \<open>compute_bounds_integral\<close>
  returns the queried radius, and with \<open>'disable'\<close> (FastLinAdaptor) exactly when the gap
  returned by \<open>compute_bounds\<close> is at least zero. Apart from the prediction, that one call
  is all the method does.
\<close>

theorem verify_verdict:
  assumes "fst (predict_label ext self x nt) = Inr (nrm, pred, label)"
  shows
   "(FastLipAdaptor_init ext ds net = Inr self \<or> RecurJacAdaptor_init ext ds net = Inr self \<longrightarrow>
       result (verify ext self x label nt radius) =
         Inr (PyBool (compute_bounds_integral ext (cbi_call self label x pred nrm radius)
                        = radius))) \<and>
    (FastLinAdaptor_init ext ds net = Inr self \<longrightarrow>
       result (verify ext self x label nt radius) =
         Inr (PyBool (0 \<le> compute_bounds ext (cb_call self label x pred nrm radius)))) \<and>
    (cls self \<noteq> SpectralAdaptor \<longrightarrow>
       result (verify ext self x label nt radius) =
         Inr (PyBool (if jacbndalg self \<noteq> Some ''disable''
                      then compute_bounds_integral ext (cbi_call self label x pred nrm radius)
                             = radius
                      else 0 \<le> compute_bounds ext (cb_call self label x pred nrm radius))) \<and>
       calls (verify ext self x label nt radius) =
         [Predict (rbm_model (model self)) [x],
          if jacbndalg self \<noteq> Some ''disable''
          then ComputeBoundsIntegral (cbi_call self label x pred nrm radius)
          else ComputeBounds (cb_call self label x pred nrm radius)])"
proof (intro conjI impI)
  assume "FastLipAdaptor_init ext ds net = Inr self \<or> RecurJacAdaptor_init ext ds net = Inr self"
  then have "cls self \<noteq> SpectralAdaptor" and "jacbndalg self \<noteq> Some ''disable''"
    using fastlip_init_fields [of ext ds net self] recurjac_init_fields [of ext ds net self]
    by auto
  then show "result (verify ext self x label nt radius) =
         Inr (PyBool (compute_bounds_integral ext (cbi_call self label x pred nrm radius)
                        = radius))"
    by (simp add: verify_not_spectral base_verify_correct [OF assms])
next
  assume "FastLinAdaptor_init ext ds net = Inr self"
  then have "cls self \<noteq> SpectralAdaptor" and "jacbndalg self = Some ''disable''"
    using fastlin_init_fields [of ext ds net self] by auto
  then show "result (verify ext self x label nt radius) =
         Inr (PyBool (0 \<le> compute_bounds ext (cb_call self label x pred nrm radius)))"
    by (simp add: verify_not_spectral base_verify_correct [OF assms])
next
  assume "cls self \<noteq> SpectralAdaptor"
  then show "result (verify ext self x label nt radius) =
         Inr (PyBool (if jacbndalg self \<noteq> Some ''disable''
                      then compute_bounds_integral ext (cbi_call self label x pred nrm radius)
                             = radius
                      else 0 \<le> compute_bounds ext (cb_call self label x pred nrm radius)))"
    by (simp add: verify_not_spectral base_verify_correct [OF assms])
next
  assume "cls self \<noteq> SpectralAdaptor"
  then show "calls (verify ext self x label nt radius) =
         [Predict (rbm_model (model self)) [x],
          if jacbndalg self \<noteq> Some ''disable''
          then ComputeBoundsIntegral (cbi_call self label x pred nrm radius)
          else ComputeBounds (cb_call self label x pred nrm radius)]"
    by (simp add: verify_not_spectral base_verify_correct [OF assms])
qed

lemma example_models:
  "model example_fastlip = model example_base" "model example_recurjac = model example_base"
  "model example_spectral = model example_base" "model example_fastlin = model example_base"
  by (simp_all add: example_fastlip_def example_recurjac_def example_spectral_def
      example_fastlin_def)

theorem verify_verdict_witness:
  "fst (predict_label example_ext example_fastlip [1, 5] ''2'') = Inr (2, [- (1/10), 6], 1) \<and>
   FastLipAdaptor_init example_ext ''toy'' example_net = Inr example_fastlip \<and>
   compute_bounds_integral example_ext
     (cbi_call example_fastlip 1 [1, 5] [- (1/10), 6] 2 (1/8)) = 1/8 \<and>
   result (verify example_ext example_fastlip [1, 5] 1 ''2'' (1/8)) = Inr (PyBool True) \<and>
   compute_bounds_integral example_ext
     (cbi_call example_fastlip 1 [1, 5] [- (1/10), 6] 2 (1/2)) = 1/4 \<and>
   result (verify example_ext example_fastlip [1, 5] 1 ''2'' (1/2)) = Inr (PyBool False) \<and>
   fst (predict_label example_ext example_fastlin [1, 5] ''2'') = Inr (2, [- (1/10), 6], 1) \<and>
   FastLinAdaptor_init example_ext ''toy'' example_net = Inr example_fastlin \<and>
   compute_bounds example_ext (cb_call example_fastlin 1 [1, 5] [- (1/10), 6] 2 (1/8)) = 1/8 \<and>
   result (verify example_ext example_fastlin [1, 5] 1 ''2'' (1/8)) = Inr (PyBool True)"
proof -
  have p1: "fst (predict_label example_ext example_fastlip [1, 5] ''2'')
      = Inr (2, [- (1/10), 6], 1)"
    by (simp add: example_predict_label example_models)
  have p2: "fst (predict_label example_ext example_fastlin [1, 5] ''2'')
      = Inr (2, [- (1/10), 6], 1)"
    by (simp add: example_predict_label example_models)
  have b1: "compute_bounds_integral example_ext
      (cbi_call example_fastlip 1 [1, 5] [- (1/10), 6] 2 (1/8)) = 1/8"
    by (simp add: example_ext_def cbi_call_def)
  have b2: "compute_bounds_integral example_ext
      (cbi_call example_fastlip 1 [1, 5] [- (1/10), 6] 2 (1/2)) = 1/4"
    by (simp add: example_ext_def cbi_call_def)
  have b3: "compute_bounds example_ext
      (cb_call example_fastlin 1 [1, 5] [- (1/10), 6] 2 (1/8)) = 1/8"
    by (simp add: example_ext_def cb_call_def)
  have v1: "result (verify example_ext example_fastlip [1, 5] 1 ''2'' (1/8)) = Inr (PyBool True)"
    using verify_verdict [OF p1, of "''toy''" example_net "1/8"] example_inits(1) b1 by simp
  have v2: "result (verify example_ext example_fastlip [1, 5] 1 ''2'' (1/2)) = Inr (PyBool False)"
    using verify_verdict [OF p1, of "''toy''" example_net "1/2"] example_inits(1) b2 by simp
  have v3: "result (verify example_ext example_fastlin [1, 5] 1 ''2'' (1/8)) = Inr (PyBool True)"
    using verify_verdict [OF p2, of "''toy''" example_net "1/8"] example_inits(4) b3 by simp
  from p1 p2 b1 b2 b3 v1 v2 v3 example_inits(1) example_inits(4) show ?thesis by (simp only:)
qed

lemma base_calc_correct:
  assumes "fst (predict_label ext self x nt) = Inr (nrm, pred, label)"
  shows "RecurJacBase_calc_radius ext self x label nt upper eps =
     (if jacbndalg self \<noteq> Some ''disable'' then
        \<lparr>result = Inr (PyFloat (fst (run_search (cond_integral ext self label x pred nrm)
                                  (binary_search ext upper (steps self))))),
         self_after = self,
         calls = [Predict (rbm_model (model self)) [x], BinarySearchCall upper (steps self)]
                 @ snd (run_search (cond_integral ext self label x pred nrm)
                          (binary_search ext upper (steps self)))
                 @ [BinarySearchReturn (fst (run_search (cond_integral ext self label x pred nrm)
                                  (binary_search ext upper (steps self))))]\<rparr>
      else
        \<lparr>result = Inr (PyFloat (fst (run_search (cond_gap ext self label x pred nrm)
                                  (binary_search ext eps (steps self))))),
         self_after = self,
         calls = [Predict (rbm_model (model self)) [x], BinarySearchCall eps (steps self)]
                 @ snd (run_search (cond_gap ext self label x pred nrm)
                          (binary_search ext eps (steps self)))
                 @ [BinarySearchReturn (fst (run_search (cond_gap ext self label x pred nrm)
                                  (binary_search ext eps (steps self))))]\<rparr>)"
  using predict_label_Inr [OF assms]
  by (simp add: RecurJacBase_calc_radius_def Let_def split_beta)

lemma spectral_calc_correct:
  assumes "fst (predict_label ext self x nt) = Inr (nrm, pred, label)"
  shows "SpectralAdaptor_calc_radius ext self x label nt upper eps =
     \<lparr>result = Inr (PyFloat (spectral_bound ext (sb_call self label x pred nrm))),
      self_after = self,
      calls = [Predict (rbm_model (model self)) [x],
               SpectralBound (sb_call self label x pred nrm)]\<rparr>"
  using predict_label_Inr [OF assms]
  by (simp add: SpectralAdaptor_calc_radius_def Let_def)

lemma mismatch_outcomes:
  assumes "fst (predict_label ext self x nt) = Inr (nrm, pred, pl)" and "pl \<noteq> label"
  shows "RecurJacBase_verify ext self x label nt radius =
           \<lparr>result = Inr (PyFloat 0), self_after = self,
            calls = [Predict (rbm_model (model self)) [x]]\<rparr>"
    and "RecurJacBase_calc_radius ext self x label nt upper eps =
           \<lparr>result = Inr (PyFloat 0), self_after = self,
            calls = [Predict (rbm_model (model self)) [x]]\<rparr>"
    and "SpectralAdaptor_calc_radius ext self x label nt upper eps =
           \<lparr>result = Inr (PyFloat 0), self_after = self,
            calls = [Predict (rbm_model (model self)) [x]]\<rparr>"
  using predict_label_Inr [OF assms(1)] assms(2)
  by (simp_all add: RecurJacBase_verify_def RecurJacBase_calc_radius_def
      SpectralAdaptor_calc_radius_def)

lemma error_outcomes:
  assumes "fst (predict_label ext self x nt) = Inl e"
  shows "RecurJacBase_verify ext self x label nt radius =
           \<lparr>result = Inl e, self_after = self, calls = snd (predict_label ext self x nt)\<rparr>"
    and "RecurJacBase_calc_radius ext self x label nt upper eps =
           \<lparr>result = Inl e, self_after = self, calls = snd (predict_label ext self x nt)\<rparr>"
    and "SpectralAdaptor_calc_radius ext self x label nt upper eps =
           \<lparr>result = Inl e, self_after = self, calls = snd (predict_label ext self x nt)\<rparr>"
  using assms
  by (cases "predict_label ext self x nt";
      simp add: RecurJacBase_verify_def RecurJacBase_calc_radius_def
        SpectralAdaptor_calc_radius_def)+

text \<open>
  C4 (amended). For a correctly predicted input \<open>calc_radius\<close> returns the value the
  external library produces and does not itself compare it with \<open>upper\<close>: for
  FastLipAdaptor and RecurJacAdaptor the result of \<open>binary_search\<close> run on the
  \<open>compute_bounds_integral\<close> predicate, started at \<open>upper\<close> with 15 steps; for
  FastLinAdaptor the result of \<open>binary_search\<close> run on the \<open>compute_bounds\<close> predicate,
  started at \<open>eps\<close> with 15 steps; for SpectralAdaptor the lower bound returned by
  \<open>spectral_bound\<close>, with no binary search.
\<close>

theorem calc_radius_value:
  assumes "fst (predict_label ext self x nt) = Inr (nrm, pred, label)"
  shows
   "(FastLipAdaptor_init ext ds net = Inr self \<or> RecurJacAdaptor_init ext ds net = Inr self \<longrightarrow>
       result (calc_radius ext self x label nt upper eps) =
         Inr (PyFloat (fst (run_search (cond_integral ext self label x pred nrm)
                              (binary_search ext upper 15))))) \<and>
    (FastLinAdaptor_init ext ds net = Inr self \<longrightarrow>
       result (calc_radius ext self x label nt upper eps) =
         Inr (PyFloat (fst (run_search (cond_gap ext self label x pred nrm)
                              (binary_search ext eps 15))))) \<and>
    (SpectralAdaptor_init ext ds net = Inr self \<longrightarrow>
       result (calc_radius ext self x label nt upper eps) =
         Inr (PyFloat (spectral_bound ext (sb_call self label x pred nrm))) \<and>
       calls (calc_radius ext self x label nt upper eps) =
         [Predict (rbm_model (model self)) [x],
          SpectralBound (sb_call self label x pred nrm)])"
proof (intro conjI impI)
  assume "FastLipAdaptor_init ext ds net = Inr self \<or> RecurJacAdaptor_init ext ds net = Inr self"
  then have "cls self \<noteq> SpectralAdaptor" "jacbndalg self \<noteq> Some ''disable''" "steps self = 15"
    using fastlip_init_fields [of ext ds net self] recurjac_init_fields [of ext ds net self]
    by auto
  then show "result (calc_radius ext self x label nt upper eps) =
         Inr (PyFloat (fst (run_search (cond_integral ext self label x pred nrm)
                              (binary_search ext upper 15))))"
    by (simp add: calc_radius_not_spectral base_calc_correct [OF assms])
next
  assume "FastLinAdaptor_init ext ds net = Inr self"
  then have "cls self \<noteq> SpectralAdaptor" "jacbndalg self = Some ''disable''" "steps self = 15"
    using fastlin_init_fields [of ext ds net self] by auto
  then show "result (calc_radius ext self x label nt upper eps) =
         Inr (PyFloat (fst (run_search (cond_gap ext self label x pred nrm)
                              (binary_search ext eps 15))))"
    by (simp add: calc_radius_not_spectral base_calc_correct [OF assms])
next
  assume "SpectralAdaptor_init ext ds net = Inr self"
  then have c: "cls self = SpectralAdaptor"
    using spectral_init_fields [of ext ds net self] by simp
  show "result (calc_radius ext self x label nt upper eps) =
         Inr (PyFloat (spectral_bound ext (sb_call self label x pred nrm)))"
    by (simp add: calc_radius_spectral [OF c] spectral_calc_correct [OF assms])
  show "calls (calc_radius ext self x label nt upper eps) =
         [Predict (rbm_model (model self)) [x],
          SpectralBound (sb_call self label x pred nrm)]"
    by (simp add: calc_radius_spectral [OF c] spectral_calc_correct [OF assms])
qed

lemma example_search_integral:
  "fst (run_search (cond_integral example_ext self 1 [1, 5] [- (1/10), 6] 2)
          (binary_search example_ext (1/2) 15)) = 1/4"
  by (simp add: example_ext_def example_search_def cond_integral_def cbi_call_def Let_def)

lemma example_search_gap:
  "fst (run_search (cond_gap example_ext self 1 [1, 5] [- (1/10), 6] 2)
          (binary_search example_ext (1/10000) 15)) = 1/10000"
  by (simp add: example_ext_def example_search_def cond_gap_def cb_call_def Let_def)

theorem calc_radius_value_witness:
  "fst (predict_label example_ext example_recurjac [1, 5] ''2'') = Inr (2, [- (1/10), 6], 1) \<and>
   RecurJacAdaptor_init example_ext ''toy'' example_net = Inr example_recurjac \<and>
   result (calc_radius example_ext example_recurjac [1, 5] 1 ''2'' (1/2) (1/10000))
     = Inr (PyFloat (1/4)) \<and>
   fst (predict_label example_ext example_fastlin [1, 5] ''2'') = Inr (2, [- (1/10), 6], 1) \<and>
   FastLinAdaptor_init example_ext ''toy'' example_net = Inr example_fastlin \<and>
   result (calc_radius example_ext example_fastlin [1, 5] 1 ''2'' (1/2) (1/10000))
     = Inr (PyFloat (1/10000)) \<and>
   fst (predict_label example_ext example_spectral [1, 5] ''2'') = Inr (2, [- (1/10), 6], 1) \<and>
   SpectralAdaptor_init example_ext ''toy'' example_net = Inr example_spectral \<and>
   result (calc_radius example_ext example_spectral [1, 5] 1 ''2'' (1/2) (1/10000))
     = Inr (PyFloat 3)"
proof -
  have p1: "fst (predict_label example_ext example_recurjac [1, 5] ''2'')
      = Inr (2, [- (1/10), 6], 1)"
    by (simp add: example_predict_label example_models)
  have p2: "fst (predict_label example_ext example_fastlin [1, 5] ''2'')
      = Inr (2, [- (1/10), 6], 1)"
    by (simp add: example_predict_label example_models)
  have p3: "fst (predict_label example_ext example_spectral [1, 5] ''2'')
      = Inr (2, [- (1/10), 6], 1)"
    by (simp add: example_predict_label example_models)
  have sb: "spectral_bound example_ext (sb_call example_spectral 1 [1, 5] [- (1/10), 6] 2) = 3"
    by (simp add: example_ext_def)
  have v1: "result (calc_radius example_ext example_recurjac [1, 5] 1 ''2'' (1/2) (1/10000))
     = Inr (PyFloat (1/4))"
  proof -
    from calc_radius_value [OF p1, of "''toy''" example_net "1/2" "1/10000"] example_inits(2)
    have "result (calc_radius example_ext example_recurjac [1, 5] 1 ''2'' (1/2) (1/10000)) =
      Inr (PyFloat (fst (run_search
        (cond_integral example_ext example_recurjac 1 [1, 5] [- (1/10), 6] 2)
        (binary_search example_ext (1/2) 15))))"
      by blast
    then show ?thesis by (simp only: example_search_integral)
  qed
  have v2: "result (calc_radius example_ext example_fastlin [1, 5] 1 ''2'' (1/2) (1/10000))
     = Inr (PyFloat (1/10000))"
  proof -
    from calc_radius_value [OF p2, of "''toy''" example_net "1/2" "1/10000"] example_inits(4)
    have "result (calc_radius example_ext example_fastlin [1, 5] 1 ''2'' (1/2) (1/10000)) =
      Inr (PyFloat (fst (run_search
        (cond_gap example_ext example_fastlin 1 [1, 5] [- (1/10), 6] 2)
        (binary_search example_ext (1/10000) 15))))"
      by blast
    then show ?thesis by (simp only: example_search_gap)
  qed
  have v3: "result (calc_radius example_ext example_spectral [1, 5] 1 ''2'' (1/2) (1/10000))
     = Inr (PyFloat 3)"
  proof -
    from calc_radius_value [OF p3, of "''toy''" example_net "1/2" "1/10000"] example_inits(3)
    have "result (calc_radius example_ext example_spectral [1, 5] 1 ''2'' (1/2) (1/10000)) =
      Inr (PyFloat (spectral_bound example_ext
        (sb_call example_spectral 1 [1, 5] [- (1/10), 6] 2)))"
      by blast
    then show ?thesis by (simp only: sb)
  qed
  from p1 p2 p3 v1 v2 v3 example_inits(2) example_inits(3) example_inits(4)
  show ?thesis by (simp only:)
qed

text \<open>
  C4 as stated fails: the SpectralAdaptor's \<open>calc_radius\<close> on a correctly predicted
  input returns what \<open>spectral_bound\<close> answers, here 3 with \<open>upper = 1/2\<close>, after two
  external calls, the prediction and the bound function, and no binary search.
\<close>

theorem calc_radius_exceeds_upper:
  "SpectralAdaptor_init example_ext ''toy'' example_net = Inr example_spectral \<and>
   fst (predict_label example_ext example_spectral [1, 5] ''2'') = Inr (2, [- (1/10), 6], 1) \<and>
   result (calc_radius example_ext example_spectral [1, 5] 1 ''2'' (1/2) (1/10000))
     = Inr (PyFloat 3) \<and>
   \<not> (3 \<le> (1/2 :: real)) \<and>
   length (calls (calc_radius example_ext example_spectral [1, 5] 1 ''2'' (1/2) (1/10000))) = 2 \<and>
   is_bound_call
     (last (calls (calc_radius example_ext example_spectral [1, 5] 1 ''2'' (1/2) (1/10000))))"
proof -
  have p3: "fst (predict_label example_ext example_spectral [1, 5] ''2'')
      = Inr (2, [- (1/10), 6], 1)"
    by (simp add: example_predict_label example_models)
  have c: "cls example_spectral = SpectralAdaptor"
    by (simp add: example_spectral_def)
  have sb: "spectral_bound example_ext (sb_call example_spectral 1 [1, 5] [- (1/10), 6] 2) = 3"
    by (simp add: example_ext_def)
  have r: "calc_radius example_ext example_spectral [1, 5] 1 ''2'' (1/2) (1/10000) =
      \<lparr>result = Inr (PyFloat 3), self_after = example_spectral,
       calls = [Predict (rbm_model (model example_spectral)) [[1, 5]],
                SpectralBound (sb_call example_spectral 1 [1, 5] [- (1/10), 6] 2)]\<rparr>"
    by (simp only: calc_radius_spectral [OF c] spectral_calc_correct [OF p3] sb)
  show ?thesis unfolding r by (simp add: p3 example_inits(3))
qed

lemma norm_of_valid:
  "nt \<in> {''1'', ''2'', ''inf''} \<Longrightarrow> \<exists>p. norm_of nt = Inr p"
  by (auto simp: norm_of_def)

lemma norm_of_invalid:
  "nt \<notin> {''1'', ''2'', ''inf''} \<Longrightarrow> norm_of nt = Inl KeyError"
  by (simp add: norm_of_def)

lemma predict_label_valid:
  assumes "nt \<in> {''1'', ''2'', ''inf''}"
  shows "snd (predict_label ext self x nt) = [Predict (rbm_model (model self)) [x]]"
proof -
  from norm_of_valid [OF assms] obtain p where "norm_of nt = Inr p" by blast
  then show ?thesis
    by (simp add: predict_label_def Let_def split: sum.splits list.splits)
qed

lemma predict_label_invalid:
  "nt \<notin> {''1'', ''2'', ''inf''} \<Longrightarrow> predict_label ext self x nt = (Inl KeyError, [])"
  by (simp add: predict_label_def norm_of_invalid)

lemma call_order_base_verify:
  assumes "nt \<in> {''1'', ''2'', ''inf''}"
  shows "call_order ext self x nt label (calls (RecurJacBase_verify ext self x label nt radius))"
proof (cases "fst (predict_label ext self x nt)")
  case (Inl e)
  then show ?thesis
    by (simp add: error_outcomes predict_label_valid [OF assms] call_order_def)
next
  case (Inr v)
  obtain nrm pred pl where v: "v = (nrm, pred, pl)" by (cases v)
  show ?thesis
  proof (cases "pl = label")
    case True
    with Inr v have p: "fst (predict_label ext self x nt) = Inr (nrm, pred, label)" by simp
    show ?thesis
      by (simp add: base_verify_correct [OF p] call_order_def predicted_label_is_def p)
  next
    case False
    with Inr v show ?thesis
      by (simp add: mismatch_outcomes(1) [of ext self x nt nrm pred pl label] call_order_def)
  qed
qed

lemma call_order_base_calc:
  assumes "nt \<in> {''1'', ''2'', ''inf''}"
  shows "call_order ext self x nt label
           (calls (RecurJacBase_calc_radius ext self x label nt upper eps))"
proof (cases "fst (predict_label ext self x nt)")
  case (Inl e)
  then show ?thesis
    by (simp add: error_outcomes predict_label_valid [OF assms] call_order_def)
next
  case (Inr v)
  obtain nrm pred pl where v: "v = (nrm, pred, pl)" by (cases v)
  show ?thesis
  proof (cases "pl = label")
    case True
    with Inr v have p: "fst (predict_label ext self x nt) = Inr (nrm, pred, label)" by simp
    show ?thesis
      by (simp add: base_calc_correct [OF p] call_order_def predicted_label_is_def p
          run_search_bound_calls cond_bound_call)
  next
    case False
    with Inr v show ?thesis
      by (simp add: mismatch_outcomes(2) [of ext self x nt nrm pred pl label] call_order_def)
  qed
qed

lemma call_order_spectral_calc:
  assumes "nt \<in> {''1'', ''2'', ''inf''}"
  shows "call_order ext self x nt label
           (calls (SpectralAdaptor_calc_radius ext self x label nt upper eps))"
proof (cases "fst (predict_label ext self x nt)")
  case (Inl e)
  then show ?thesis
    by (simp add: error_outcomes predict_label_valid [OF assms] call_order_def)
next
  case (Inr v)
  obtain nrm pred pl where v: "v = (nrm, pred, pl)" by (cases v)
  show ?thesis
  proof (cases "pl = label")
    case True
    with Inr v have p: "fst (predict_label ext self x nt) = Inr (nrm, pred, label)" by simp
    show ?thesis
      by (simp add: spectral_calc_correct [OF p] call_order_def predicted_label_is_def p)
  next
    case False
    with Inr v show ?thesis
      by (simp add: mismatch_outcomes(3) [of ext self x nt nrm pred pl label] call_order_def)
  qed
qed

lemma key_error_outcomes:
  assumes "nt \<notin> {''1'', ''2'', ''inf''}"
  shows "verify ext self x label nt radius =
           \<lparr>result = Inl KeyError, self_after = self, calls = []\<rparr>"
    and "calc_radius ext self x label nt upper eps =
           \<lparr>result = Inl KeyError, self_after = self, calls = []\<rparr>"
  by (cases "cls self";
      simp add: verify_def calc_radius_def SpectralAdaptor_verify_def
        RecurJacBase_verify_def RecurJacBase_calc_radius_def SpectralAdaptor_calc_radius_def
        predict_label_invalid [OF assms])+

text \<open>
  C5 (amended). Every call of \<open>verify\<close> or \<open>calc_radius\<close>, of any adaptor, with a norm type
  among \<open>'1'\<close>, \<open>'2'\<close> and \<open>'inf'\<close> makes its external calls in one order: the keras model
  predicts on the input first; a bound function (\<open>compute_bounds\<close>,
  \<open>compute_bounds_integral\<close>, \<open>spectral_bound\<close>) or the binary search is called only after
  that and only when the predicted label is the given one; a binary search, when there is
  one, comes last, the bound functions being called from inside it. With any other norm
  type the call raises KeyError before the prediction and makes no external call.
\<close>

theorem calls_follow_sequence:
  "(nt \<in> {''1'', ''2'', ''inf''} \<longrightarrow>
      call_order ext self x nt label (calls (verify ext self x label nt radius)) \<and>
      call_order ext self x nt label (calls (calc_radius ext self x label nt upper eps))) \<and>
   (nt \<notin> {''1'', ''2'', ''inf''} \<longrightarrow>
      result (verify ext self x label nt radius) = Inl KeyError \<and>
      calls (verify ext self x label nt radius) = [] \<and>
      result (calc_radius ext self x label nt upper eps) = Inl KeyError \<and>
      calls (calc_radius ext self x label nt upper eps) = [])"
proof (intro conjI impI)
  assume v: "nt \<in> {''1'', ''2'', ''inf''}"
  show "call_order ext self x nt label (calls (verify ext self x label nt radius))"
    by (cases "cls self")
      (simp_all add: verify_def SpectralAdaptor_verify_def Let_def
        call_order_base_verify [OF v] call_order_spectral_calc [OF v])
  show "call_order ext self x nt label (calls (calc_radius ext self x label nt upper eps))"
    by (cases "cls self")
      (simp_all add: calc_radius_def call_order_base_calc [OF v] call_order_spectral_calc [OF v])
next
  assume i: "nt \<notin> {''1'', ''2'', ''inf''}"
  show "result (verify ext self x label nt radius) = Inl KeyError"
    and "calls (verify ext self x label nt radius) = []"
    and "result (calc_radius ext self x label nt upper eps) = Inl KeyError"
    and "calls (calc_radius ext self x label nt upper eps) = []"
    by (simp_all add: key_error_outcomes [OF i])
qed

theorem calls_follow_sequence_witness:
  "''2'' \<in> {''1'', ''2'', ''inf''} \<and>
   calls (calc_radius example_ext example_recurjac [1, 5] 1 ''2'' (1/2) (1/10000)) =
     [Predict example_keras [[1, 5]],
      BinarySearchCall (1/2) 15,
      ComputeBoundsIntegral (cbi_call example_recurjac 1 [1, 5] [- (1/10), 6] 2 (1/2)),
      ComputeBoundsIntegral (cbi_call example_recurjac 1 [1, 5] [- (1/10), 6] 2 (1/4)),
      BinarySearchReturn (1/4)] \<and>
   call_order example_ext example_recurjac [1, 5] ''2'' 1
     (calls (calc_radius example_ext example_recurjac [1, 5] 1 ''2'' (1/2) (1/10000))) \<and>
   predicted_label_is example_ext example_recurjac [1, 5] ''2'' 1 \<and>
   calls (verify example_ext example_recurjac [1, 5] 0 ''2'' (1/8)) =
     [Predict example_keras [[1, 5]]] \<and>
   call_order example_ext example_recurjac [1, 5] ''2'' 0
     (calls (verify example_ext example_recurjac [1, 5] 0 ''2'' (1/8))) \<and>
   ''l2'' \<notin> {''1'', ''2'', ''inf''} \<and>
   result (verify example_ext example_spectral [1, 5] 1 ''l2'' (1/8)) = Inl KeyError \<and>
   calls (verify example_ext example_spectral [1, 5] 1 ''l2'' (1/8)) = [] \<and>
   result (calc_radius example_ext example_spectral [1, 5] 1 ''l2'' (1/2) (1/10000))
     = Inl KeyError \<and>
   calls (calc_radius example_ext example_spectral [1, 5] 1 ''l2'' (1/2) (1/10000)) = []"
proof -
  have p: "fst (predict_label example_ext example_recurjac [1, 5] ''2'')
      = Inr (2, [- (1/10), 6], 1)"
    by (simp add: example_predict_label example_models)
  have c: "cls example_recurjac \<noteq> SpectralAdaptor" "jacbndalg example_recurjac \<noteq> Some ''disable''"
    "steps example_recurjac = 15" "rbm_model (model example_recurjac) = example_keras"
    by (simp_all add: example_recurjac_def example_base_def)
  have s: "run_search (cond_integral example_ext example_recurjac 1 [1, 5] [- (1/10), 6] 2)
        (binary_search example_ext (1/2) 15) =
      (1/4, [ComputeBoundsIntegral (cbi_call example_recurjac 1 [1, 5] [- (1/10), 6] 2 (1/2)),
             ComputeBoundsIntegral (cbi_call example_recurjac 1 [1, 5] [- (1/10), 6] 2 (1/4))])"
    by (simp add: example_ext_def example_search_def cond_integral_def cbi_call_def Let_def)
  have a: "calls (calc_radius example_ext example_recurjac [1, 5] 1 ''2'' (1/2) (1/10000)) =
     [Predict example_keras [[1, 5]],
      BinarySearchCall (1/2) 15,
      ComputeBoundsIntegral (cbi_call example_recurjac 1 [1, 5] [- (1/10), 6] 2 (1/2)),
      ComputeBoundsIntegral (cbi_call example_recurjac 1 [1, 5] [- (1/10), 6] 2 (1/4)),
      BinarySearchReturn (1/4)]"
    unfolding calc_radius_not_spectral [OF c(1)] base_calc_correct [OF p] c(3) s
    using c(2) by (simp add: c(4))
  have b: "calls (verify example_ext example_recurjac [1, 5] 0 ''2'' (1/8)) =
     [Predict example_keras [[1, 5]]]"
    unfolding verify_not_spectral [OF c(1)]
    by (simp add: mismatch_outcomes(1) [OF p] c(4))
  have v: "''2'' \<in> {''1'', ''2'', ''inf''}" by simp
  have i: "''l2'' \<notin> {''1'', ''2'', ''inf''}" by simp
  note th = calls_follow_sequence [of "''2''" example_ext example_recurjac "[1, 5]" 1 "1/8" "1/2"
      "1/10000"]
  note th0 = calls_follow_sequence [of "''2''" example_ext example_recurjac "[1, 5]" 0 "1/8" "1/2"
      "1/10000"]
  note thk = calls_follow_sequence [of "''l2''" example_ext example_spectral "[1, 5]" 1 "1/8"
      "1/2" "1/10000"]
  from th v have o1: "call_order example_ext example_recurjac [1, 5] ''2'' 1
     (calls (calc_radius example_ext example_recurjac [1, 5] 1 ''2'' (1/2) (1/10000)))"
    by blast
  from o1 have pl: "predicted_label_is example_ext example_recurjac [1, 5] ''2'' 1"
    unfolding a call_order_def by simp
  from th0 v have o0: "call_order example_ext example_recurjac [1, 5] ''2'' 0
     (calls (verify example_ext example_recurjac [1, 5] 0 ''2'' (1/8)))"
    by blast
  from thk i have k:
    "result (verify example_ext example_spectral [1, 5] 1 ''l2'' (1/8)) = Inl KeyError"
    "calls (verify example_ext example_spectral [1, 5] 1 ''l2'' (1/8)) = []"
    "result (calc_radius example_ext example_spectral [1, 5] 1 ''l2'' (1/2) (1/10000))
       = Inl KeyError"
    "calls (calc_radius example_ext example_spectral [1, 5] 1 ''l2'' (1/2) (1/10000)) = []"
    by blast+
  from v a o1 pl b o0 i k show ?thesis by (simp only: simp_thms)
qed

text \<open>
  C5 as stated fails: with the norm type \<open>'3'\<close> the model never predicts. \<open>verify\<close> and
  \<open>calc_radius\<close> of a FastLipAdaptor raise KeyError and make no external call.
\<close>

theorem bad_norm_type_predicts_nothing:
  "result (verify example_ext example_fastlip [1, 5] 1 ''3'' (1/8)) = Inl KeyError \<and>
   calls (verify example_ext example_fastlip [1, 5] 1 ''3'' (1/8)) = [] \<and>
   result (calc_radius example_ext example_fastlip [1, 5] 1 ''3'' (1/2) (1/10000))
     = Inl KeyError \<and>
   calls (calc_radius example_ext example_fastlip [1, 5] 1 ''3'' (1/2) (1/10000)) = []"
  by (simp add: verify_def calc_radius_def example_fastlip_def RecurJacBase_verify_def
      RecurJacBase_calc_radius_def predict_label_def norm_of_def)

text \<open>
  C7 (amended). When the predicted label differs from the given one, \<open>calc_radius\<close> of
  every adaptor returns 0.0, \<open>verify\<close> of the SpectralAdaptor returns the boolean
  \<open>radius <= 0.0\<close>, and neither method of any adaptor calls a bound function or performs a
  binary search: the prediction is the only external call.
\<close>

theorem mismatch_returns_at_once:
  assumes "fst (predict_label ext self x nt) = Inr (nrm, pred, pl)" and "pl \<noteq> label"
  shows "result (calc_radius ext self x label nt upper eps) = Inr (PyFloat 0) \<and>
         calls (calc_radius ext self x label nt upper eps) = [Predict (rbm_model (model self)) [x]] \<and>
         calls (verify ext self x label nt radius) = [Predict (rbm_model (model self)) [x]] \<and>
         (cls self = SpectralAdaptor \<longrightarrow>
            result (verify ext self x label nt radius) = Inr (PyBool (radius \<le> 0)))"
  by (cases "cls self")
    (simp_all add: verify_def calc_radius_def SpectralAdaptor_verify_def Let_def
      mismatch_outcomes [OF assms])

theorem mismatch_returns_at_once_witness:
  "fst (predict_label example_ext example_spectral [1, 5] ''2'') = Inr (2, [- (1/10), 6], 1) \<and>
   (1 :: nat) \<noteq> 0 \<and>
   cls example_spectral = SpectralAdaptor \<and>
   result (calc_radius example_ext example_spectral [1, 5] 0 ''2'' (1/2) (1/10000))
     = Inr (PyFloat 0) \<and>
   calls (calc_radius example_ext example_spectral [1, 5] 0 ''2'' (1/2) (1/10000))
     = [Predict example_keras [[1, 5]]] \<and>
   calls (verify example_ext example_spectral [1, 5] 0 ''2'' (1/8))
     = [Predict example_keras [[1, 5]]] \<and>
   result (verify example_ext example_spectral [1, 5] 0 ''2'' (1/8)) = Inr (PyBool False)"
proof -
  have p: "fst (predict_label example_ext example_spectral [1, 5] ''2'')
      = Inr (2, [- (1/10), 6], 1)"
    by (simp add: example_predict_label example_models)
  have n: "(1 :: nat) \<noteq> 0" by simp
  have c: "cls example_spectral = SpectralAdaptor"
    "rbm_model (model example_spectral) = example_keras"
    by (simp_all add: example_spectral_def example_base_def)
  from mismatch_returns_at_once [OF p n, of "1/2" "1/10000" "1/8"] p n c
  show ?thesis by simp
qed

text \<open>
  C7 as stated fails for \<open>SpectralAdaptor.verify\<close>: with predicted label 1, given label 0
  and radius 0 it returns True, not 0.0.
\<close>

theorem spectral_verify_mismatch_not_zero:
  "fst (predict_label example_ext example_spectral [1, 5] ''2'') = Inr (2, [- (1/10), 6], 1) \<and>
   (1 :: nat) \<noteq> 0 \<and>
   result (verify example_ext example_spectral [1, 5] 0 ''2'' 0) = Inr (PyBool True) \<and>
   result (verify example_ext example_spectral [1, 5] 0 ''2'' 0) \<noteq> Inr (PyFloat 0)"
proof -
  have p: "fst (predict_label example_ext example_spectral [1, 5] ''2'')
      = Inr (2, [- (1/10), 6], 1)"
    by (simp add: example_predict_label example_models)
  have n: "(1 :: nat) \<noteq> 0" by simp
  have c: "cls example_spectral = SpectralAdaptor"
    by (simp add: example_spectral_def)
  have "result (verify example_ext example_spectral [1, 5] 0 ''2'' 0) = Inr (PyBool True)"
    by (simp add: verify_spectral [OF c] SpectralAdaptor_verify_def Let_def
        mismatch_outcomes(3) [OF p n])
  with p show ?thesis by simp
qed

lemma spectral_calc_independent:
  "SpectralAdaptor_calc_radius ext self x label nt upper eps =
   SpectralAdaptor_calc_radius ext self x label nt upper' eps'"
  by (simp add: SpectralAdaptor_calc_radius_def)

lemma spectral_calc_float:
  "(\<exists>e. result (SpectralAdaptor_calc_radius ext self x label nt upper eps) = Inl e) \<or>
   (\<exists>r. result (SpectralAdaptor_calc_radius ext self x label nt upper eps) = Inr (PyFloat r))"
  by (cases "predict_label ext self x nt")
    (auto simp: SpectralAdaptor_calc_radius_def Let_def split: sum.splits)

text \<open>
  C9. For a SpectralAdaptor, \<open>verify\<close> returns True exactly when \<open>calc_radius\<close> returns a
  radius that is at least the queried one, False exactly when it returns a smaller one, and
  raises exactly when \<open>calc_radius\<close> raises; \<open>upper\<close> and \<open>eps\<close> make no difference.
\<close>

theorem spectral_verify_consistent:
  assumes "cls self = SpectralAdaptor"
  shows "((result (verify ext self x label nt radius) = Inr (PyBool True)) =
            (\<exists>r. result (calc_radius ext self x label nt upper eps) = Inr (PyFloat r) \<and>
                 radius \<le> r)) \<and>
         ((result (verify ext self x label nt radius) = Inr (PyBool False)) =
            (\<exists>r. result (calc_radius ext self x label nt upper eps) = Inr (PyFloat r) \<and>
                 \<not> radius \<le> r)) \<and>
         ((result (verify ext self x label nt radius) = Inl e) =
            (result (calc_radius ext self x label nt upper eps) = Inl e))"
proof -
  let ?c = "SpectralAdaptor_calc_radius ext self x label nt upper eps"
  have v: "result (verify ext self x label nt radius) =
      (case result ?c of Inl e \<Rightarrow> Inl e | Inr v \<Rightarrow> Inr (py_le radius v))"
    using spectral_calc_independent [of ext self x label nt "1/2" "1/10000" upper eps]
    by (simp add: verify_spectral [OF assms] SpectralAdaptor_verify_def Let_def)
  have c: "calc_radius ext self x label nt upper eps = ?c"
    by (rule calc_radius_spectral [OF assms])
  from spectral_calc_float [of ext self x label nt upper eps]
  show ?thesis unfolding v c by auto
qed

theorem spectral_verify_consistent_witness:
  "cls example_spectral = SpectralAdaptor \<and>
   result (calc_radius example_ext example_spectral [1, 5] 1 ''2'' (1/2) (1/10000))
     = Inr (PyFloat 3) \<and>
   result (verify example_ext example_spectral [1, 5] 1 ''2'' 2) = Inr (PyBool True) \<and>
   result (verify example_ext example_spectral [1, 5] 1 ''2'' 4) = Inr (PyBool False)"
proof -
  have p: "fst (predict_label example_ext example_spectral [1, 5] ''2'')
      = Inr (2, [- (1/10), 6], 1)"
    by (simp add: example_predict_label example_models)
  have c: "cls example_spectral = SpectralAdaptor"
    by (simp add: example_spectral_def)
  have sb: "spectral_bound example_ext (sb_call example_spectral 1 [1, 5] [- (1/10), 6] 2) = 3"
    by (simp add: example_ext_def)
  have r: "result (calc_radius example_ext example_spectral [1, 5] 1 ''2'' (1/2) (1/10000))
     = Inr (PyFloat 3)"
    by (simp only: calc_radius_spectral [OF c] spectral_calc_correct [OF p] sb
        outcome.simps)
  have t: "result (verify example_ext example_spectral [1, 5] 1 ''2'' 2) = Inr (PyBool True)"
    using spectral_verify_consistent [OF c, of example_ext "[1, 5]" 1 "''2''" 2 "1/2" "1/10000"]
      r by simp
  have f: "result (verify example_ext example_spectral [1, 5] 1 ''2'' 4) = Inr (PyBool False)"
    using spectral_verify_consistent [OF c, of example_ext "[1, 5]" 1 "''2''" 4 "1/2" "1/10000"]
      r by simp
  from c r t f show ?thesis by (simp only:)
qed

text \<open>
  C2. \<open>verify\<close> of a FastLipAdaptor on an input whose predicted label (1) is not the given
  one (0) returns the float 0.0, not a boolean.
\<close>

theorem verify_mismatch_is_float:
  "FastLipAdaptor_init example_ext ''toy'' example_net = Inr example_fastlip \<and>
   fst (predict_label example_ext example_fastlip [1, 5] ''2'') = Inr (2, [- (1/10), 6], 1) \<and>
   result (verify example_ext example_fastlip [1, 5] 0 ''2'' (1/8)) = Inr (PyFloat 0)"
proof -
  have p: "fst (predict_label example_ext example_fastlip [1, 5] ''2'')
      = Inr (2, [- (1/10), 6], 1)"
    by (simp add: example_predict_label example_models)
  have n: "(1 :: nat) \<noteq> 0" by simp
  have c: "cls example_fastlip \<noteq> SpectralAdaptor"
    by (simp add: example_fastlip_def)
  have "result (verify example_ext example_fastlip [1, 5] 0 ''2'' (1/8)) = Inr (PyFloat 0)"
    by (simp add: verify_not_spectral [OF c] mismatch_outcomes(1) [OF p n])
  with p example_inits(1) show ?thesis by (simp only:)
qed

end

